theory Spec2Isabelle
  imports Complex_Main "HOL-Library.AList"
begin

section \<open>Python values of brainMRI.py\<close>

text \<open>
  The exceptions the script can raise. \<open>KeyError\<close> carries the missing key and
  \<open>NameError\<close> the unbound name; \<open>ValueError\<close> is raised by a tuple unpacking
  whose right-hand side has the wrong number of items; \<open>LibraryError\<close> stands for a
  failure raised inside nibabel, scipy or scikit-image.
\<close>

datatype py_error =
    KeyError string
  | ValueError
  | NameError string
  | IndexError
  | LibraryError string

type_synonym vertex = "real \<times> real \<times> real"
type_synonym face = "int \<times> int \<times> int"
type_synonym surface = "vertex list \<times> face list"

text \<open>
  A value stored in the mesh mapping: the 4-tuple \<open>(verts, faces, color, opacity)\<close>
  of lines 39 and 141, or the empty list \<open>[]\<close> that the default factory of
  \<open>defaultdict(list)\<close> produces.
\<close>

datatype mesh_value =
    Entry "vertex list" "face list" string real
  | EmptyList

text \<open>
  A Python mapping, in insertion order. \<open>default_list\<close> tells a
  \<open>defaultdict(list)\<close> (line 21) from a plain \<open>dict\<close>.
\<close>

record mesh_dict =
  default_list :: bool
  dict_items :: "(string \<times> mesh_value) list"

definition dict_keys :: "mesh_dict \<Rightarrow> string list" where
  "dict_keys d = map fst (dict_items d)"

text \<open>\<open>d[k]\<close>: a missing key raises KeyError in a dict; a defaultdict binds the key
  to a fresh \<open>[]\<close> and returns it.\<close>

definition dict_getitem :: "mesh_dict \<Rightarrow> string \<Rightarrow> (py_error + mesh_value) \<times> mesh_dict" where
  "dict_getitem d k =
     (case map_of (dict_items d) k of
        Some v \<Rightarrow> (Inr v, d)
      | None \<Rightarrow>
          if default_list d
          then (Inr EmptyList, d\<lparr>dict_items := dict_items d @ [(k, EmptyList)]\<rparr>)
          else (Inl (KeyError k), d))"

text \<open>\<open>d[k] = v\<close>: rebinds an existing key in place, appends a new one.\<close>

definition dict_setitem :: "mesh_dict \<Rightarrow> string \<Rightarrow> mesh_value \<Rightarrow> mesh_dict" where
  "dict_setitem d k v = d\<lparr>dict_items := AList.update k v (dict_items d)\<rparr>"

text \<open>\<open>a, b, c, d = value\<close>.\<close>

fun unpack4 :: "mesh_value \<Rightarrow> py_error + (vertex list \<times> face list \<times> string \<times> real)" where
  "unpack4 (Entry vertices faces color opacity) = Inr (vertices, faces, color, opacity)"
| "unpack4 EmptyList = Inl ValueError"

text \<open>Keys are unique in a Python mapping.\<close>

definition dict_ok :: "mesh_dict \<Rightarrow> bool" where
  "dict_ok d = distinct (dict_keys d)"

text \<open>A mapping of surface entries: every value is a 4-tuple.\<close>

fun is_entry :: "mesh_value \<Rightarrow> bool" where
  "is_entry (Entry vertices faces color opacity) = True"
| "is_entry EmptyList = False"

definition surface_entries :: "mesh_dict \<Rightarrow> bool" where
  "surface_entries d = (dict_ok d \<and> list_all (\<lambda>kv. is_entry (snd kv)) (dict_items d))"

section \<open>create_3d_html (lines 43 to 79)\<close>

text \<open>
  One \<open>go.Mesh3d\<close> trace: the keyword arguments it is built from. The columns
  \<open>vertices[:, 0]\<close> and \<open>faces[:, 0]\<close> are the component lists.
\<close>

record mesh3d =
  mesh_x :: "real list"
  mesh_y :: "real list"
  mesh_z :: "real list"
  mesh_i :: "int list"
  mesh_j :: "int list"
  mesh_k :: "int list"
  mesh_color :: string
  mesh_opacity :: real
  mesh_name :: string

text \<open>
  The constructor validates its properties and raises ValueError: \<open>opacity\<close> has to be
  a number between 0 and 1, and \<open>color\<close> a colour plotly accepts. Which strings are
  colours is decided by plotly, not by the script: it is the parameter \<open>color_ok\<close>.
\<close>

definition Mesh3d ::
    "(string \<Rightarrow> bool) \<Rightarrow> vertex list \<Rightarrow> face list \<Rightarrow> string \<Rightarrow> real \<Rightarrow> string
       \<Rightarrow> py_error + mesh3d" where
  "Mesh3d color_ok vertices faces color opacity name =
     (if color_ok color \<and> 0 \<le> opacity \<and> opacity \<le> 1
      then Inr \<lparr> mesh_x = map fst vertices,
                 mesh_y = map (\<lambda>v. fst (snd v)) vertices,
                 mesh_z = map (\<lambda>v. snd (snd v)) vertices,
                 mesh_i = map fst faces,
                 mesh_j = map (\<lambda>f. fst (snd f)) faces,
                 mesh_k = map (\<lambda>f. snd (snd f)) faces,
                 mesh_color = color,
                 mesh_opacity = opacity,
                 mesh_name = name \<rparr>
      else Inl ValueError)"

text \<open>
  What a call of \<open>create_3d_html\<close> leaves behind: the exception that ended it (if
  any), the local list \<open>data\<close> at that moment, the figure written to
  \<open>brain_plot.html\<close> (if the call got that far), and the mapping it was given.
\<close>

record html_run =
  html_error :: "py_error option"
  html_data :: "mesh3d list"
  html_file :: "mesh3d list option"
  html_mesh_data :: mesh_dict

text \<open>The loop of lines 60 to 74 over the keys, with \<open>mesh_data\<close> and \<open>data\<close>
  threaded through.\<close>

fun html_loop ::
    "(string \<Rightarrow> bool) \<Rightarrow> string list \<Rightarrow> mesh_dict \<Rightarrow> mesh3d list
       \<Rightarrow> py_error option \<times> mesh_dict \<times> mesh3d list" where
  "html_loop color_ok [] mesh_data data = (None, mesh_data, data)"
| "html_loop color_ok (name # names) mesh_data data =
     (if name = ''brain'' then html_loop color_ok names mesh_data data
      else
        (case dict_getitem mesh_data name of
           (Inl e, mesh_data') \<Rightarrow> (Some e, mesh_data', data)
         | (Inr val, mesh_data') \<Rightarrow>
             (case unpack4 val of
                Inl e \<Rightarrow> (Some e, mesh_data', data)
              | Inr (vertices, faces, color, opacity) \<Rightarrow>
                  (case Mesh3d color_ok vertices faces color opacity name of
                     Inl e \<Rightarrow> (Some e, mesh_data', data)
                   | Inr layer \<Rightarrow>
                       html_loop color_ok names mesh_data' (data @ [layer])))))"

definition create_3d_html :: "(string \<Rightarrow> bool) \<Rightarrow> mesh_dict \<Rightarrow> html_run" where
  "create_3d_html color_ok mesh_data =
     (case dict_getitem mesh_data ''brain'' of
        (Inl e, mesh_data') \<Rightarrow>
          \<lparr> html_error = Some e, html_data = [], html_file = None, html_mesh_data = mesh_data' \<rparr>
      | (Inr val, mesh_data') \<Rightarrow>
          (case unpack4 val of
             Inl e \<Rightarrow>
               \<lparr> html_error = Some e, html_data = [], html_file = None,
                 html_mesh_data = mesh_data' \<rparr>
           | Inr (vertices, faces, color, opacity) \<Rightarrow>
               (case Mesh3d color_ok vertices faces color opacity ''brain'' of
                  Inl e \<Rightarrow>
                    \<lparr> html_error = Some e, html_data = [], html_file = None,
                      html_mesh_data = mesh_data' \<rparr>
                | Inr layer \<Rightarrow>
                    (case html_loop color_ok (dict_keys mesh_data') mesh_data' [layer] of
                       (Some e, mesh_data'', data) \<Rightarrow>
                         \<lparr> html_error = Some e, html_data = data, html_file = None,
                           html_mesh_data = mesh_data'' \<rparr>
                     | (None, mesh_data'', data) \<Rightarrow>
                         \<lparr> html_error = None, html_data = data, html_file = Some data,
                           html_mesh_data = mesh_data'' \<rparr>))))"

section \<open>create_usdc_with_materials (lines 81 to 124)\<close>

definition COLOR_MAP :: "string \<Rightarrow> (real \<times> real \<times> real) option" where
  "COLOR_MAP = map_of
     [(''pink'', (0.9, 0.7, 0.7)),
      (''red'', (1.0, 0.0, 0.0)),
      (''yellow'', (0.9, 0.9, 0.5)),
      (''lightblue'', (0.7, 0.7, 0.9))]"

text \<open>
  Python floats are modelled as reals. \<open>Gf.Vec3f\<close> holds three single-precision
  numbers, so building one rounds each component: to nearest, ties to even, with 24
  significant bits and least exponent -126 (below it the spacing stays \<open>2 ^ -149\<close>).
  \<open>binary_exponent\<close> finds \<open>e\<close> with \<open>2 ^ e \<le> x < 2 ^ (e + 1)\<close> for positive
  \<open>x\<close>. Overflow to infinity is not represented.
\<close>

fun binary_exponent :: "nat \<Rightarrow> real \<Rightarrow> int" where
  "binary_exponent 0 x = 0"
| "binary_exponent (Suc fuel) x =
     (if 2 \<le> x then binary_exponent fuel (x / 2) + 1
      else if x < 1 then binary_exponent fuel (2 * x) - 1
      else 0)"

definition pow2 :: "int \<Rightarrow> real" where
  "pow2 e = (if 0 \<le> e then 2 ^ nat e else 1 / 2 ^ nat (- e))"

definition round_half_even :: "real \<Rightarrow> int" where
  "round_half_even x =
     (let f = \<lfloor>x\<rfloor>; d = x - of_int f
      in if d < 1 / 2 then f
         else if 1 / 2 < d then f + 1
         else if even f then f else f + 1)"

definition float32 :: "real \<Rightarrow> real" where
  "float32 x =
     (if x = 0 then 0
      else
        let e = max (binary_exponent 300 \<bar>x\<bar>) (- 126);
            ulp = pow2 (e - 23)
        in sgn x * of_int (round_half_even (\<bar>x\<bar> / ulp)) * ulp)"

datatype vec3f = Vec3f real real real

definition Gf_Vec3f :: "real \<Rightarrow> real \<Rightarrow> real \<Rightarrow> vec3f" where
  "Gf_Vec3f x y z = Vec3f (float32 x) (float32 y) (float32 z)"

record usd_mesh =
  mesh_path :: string
  points :: "vec3f list"
  faceVertexIndices :: "int list"
  faceVertexCounts :: "int list"
  normals :: "vec3f list"
  normalsInterpolation :: string
  material_binding :: string

record usd_material =
  mat_path :: string
  shader_path :: string
  shader_id :: string
  diffuseColor :: vec3f

record usd_stage =
  stage_filename :: string
  default_prim :: string
  meshes :: "usd_mesh list"
  materials :: "usd_material list"

text \<open>\<open>faces.flatten().tolist()\<close>: the rows of the face array, one after another.\<close>

definition flatten :: "face list \<Rightarrow> int list" where
  "flatten faces = concat (map (\<lambda>(a, b, c). [a, b, c]) faces)"

text \<open>The body of the loop (lines 87 to 119) once the colour has been looked up.\<close>

definition define_entry ::
    "string \<Rightarrow> vertex list \<Rightarrow> face list \<Rightarrow> real \<times> real \<times> real \<Rightarrow> usd_stage \<Rightarrow> usd_stage" where
  "define_entry name vertices faces color_tuple stage =
     (let mesh_path = ''/World/'' @ name;
          points = map (\<lambda>(x, y, z). Gf_Vec3f x y z) vertices;
          face_vertex_indices = flatten faces;
          face_vertex_counts = replicate (length faces) 3;
          mat_path = ''/Materials/'' @ name @ ''Mat'';
          shader_path = ''/Materials/'' @ name @ ''Mat/Shader''
      in stage
         \<lparr> meshes := meshes stage @
             [\<lparr> mesh_path = mesh_path, points = points,
                faceVertexIndices = face_vertex_indices,
                faceVertexCounts = face_vertex_counts,
                normals = replicate (length vertices) (Gf_Vec3f 0 0 1),
                normalsInterpolation = ''vertex'',
                material_binding = mat_path \<rparr>],
           materials := materials stage @
             [\<lparr> mat_path = mat_path, shader_path = shader_path,
                shader_id = ''UsdPreviewSurface'',
                diffuseColor =
                  Gf_Vec3f (fst color_tuple) (fst (snd color_tuple))
                    (snd (snd color_tuple)) \<rparr>] \<rparr>)"

text \<open>The loop of line 85 over \<open>mesh_data_dict.items()\<close>. It returns the exception
  that ended it (if any) and the stage as built up to then.\<close>

fun usdc_loop :: "(string \<times> mesh_value) list \<Rightarrow> usd_stage \<Rightarrow> py_error option \<times> usd_stage" where
  "usdc_loop [] stage = (None, stage)"
| "usdc_loop ((name, val) # rest) stage =
     (case unpack4 val of
        Inl e \<Rightarrow> (Some e, stage)
      | Inr (vertices, faces, color, opacity) \<Rightarrow>
          (case COLOR_MAP color of
             None \<Rightarrow> (Some (KeyError color), stage)
           | Some color_tuple \<Rightarrow>
               usdc_loop rest (define_entry name vertices faces color_tuple stage)))"

text \<open>
  What a call of \<open>create_usdc_with_materials\<close> leaves behind: the exception that
  ended it, the stage in memory, the stage saved to the file (line 124 is reached only
  when the loop completes), and the mapping, which the function only iterates.
\<close>

record usd_run =
  usd_error :: "py_error option"
  usd_built :: usd_stage
  usd_saved :: "usd_stage option"
  usd_mesh_data :: mesh_dict

definition create_usdc_with_materials :: "string \<Rightarrow> mesh_dict \<Rightarrow> usd_run" where
  "create_usdc_with_materials filename mesh_data_dict =
     (let stage = \<lparr> stage_filename = filename, default_prim = ''/World'',
                    meshes = [], materials = [] \<rparr>
      in case usdc_loop (dict_items mesh_data_dict) stage of
           (Some e, stage') \<Rightarrow>
             \<lparr> usd_error = Some e, usd_built = stage', usd_saved = None,
               usd_mesh_data = mesh_data_dict \<rparr>
         | (None, stage') \<Rightarrow>
             \<lparr> usd_error = None, usd_built = stage', usd_saved = Some stage',
               usd_mesh_data = mesh_data_dict \<rparr>)"

section \<open>get_tumors and the script body (lines 17 to 41 and 127 to 141)\<close>

text \<open>
  A numpy array: its shape and its values in row-major order. Element types are not
  tracked, so a conversion that keeps every value (\<open>astype(float)\<close> on a mask) is the
  identity, and \<open>astype(np.uint8)\<close> on a float array is the C conversion: truncation
  towards zero, reduced modulo 256.
\<close>

record ndarray =
  arr_shape :: "nat list"
  arr_data :: "real list"

definition DOWNSAMPLE_FACTOR :: real where
  "DOWNSAMPLE_FACTOR = 0.6"

text \<open>\<open>(seg_data == label).astype(np.uint8)\<close>\<close>

definition eq_mask :: "ndarray \<Rightarrow> int \<Rightarrow> ndarray" where
  "eq_mask seg_data label =
     seg_data\<lparr>arr_data := map (\<lambda>x. if x = of_int label then 1 else 0) (arr_data seg_data)\<rparr>"

text \<open>\<open>mri_data > brain_threshold\<close>\<close>

definition gt_mask :: "ndarray \<Rightarrow> real \<Rightarrow> ndarray" where
  "gt_mask mri_data threshold =
     mri_data\<lparr>arr_data := map (\<lambda>x. if x > threshold then 1 else 0) (arr_data mri_data)\<rparr>"

definition np_sum :: "ndarray \<Rightarrow> real" where
  "np_sum a = sum_list (arr_data a)"

definition astype_float :: "ndarray \<Rightarrow> ndarray" where
  "astype_float a = a"

definition to_uint8 :: "real \<Rightarrow> real" where
  "to_uint8 x = of_int ((if 0 \<le> x then \<lfloor>x\<rfloor> else \<lceil>x\<rceil>) mod 256)"

definition astype_uint8 :: "ndarray \<Rightarrow> ndarray" where
  "astype_uint8 a = a\<lparr>arr_data := map to_uint8 (arr_data a)\<rparr>"

text \<open>\<open>a[:, :, :, c]\<close>: needs four axes and \<open>c\<close> within the fourth.\<close>

definition take_channel :: "ndarray \<Rightarrow> nat \<Rightarrow> py_error + ndarray" where
  "take_channel a c =
     (if length (arr_shape a) < 4 then Inl IndexError
      else
        let n3 = arr_shape a ! 3;
            inner = prod_list (drop 4 (arr_shape a));
            outer = prod_list (take 3 (arr_shape a))
        in if n3 \<le> c then Inl IndexError
           else Inr \<lparr> arr_shape = take 3 (arr_shape a) @ drop 4 (arr_shape a),
                      arr_data = concat (map (\<lambda>k. take inner (drop ((k * n3 + c) * inner) (arr_data a)))
                                             [0..<outer]) \<rparr>)"

text \<open>
  The library routines the script calls are not part of the repository; they are
  parameters of the model. \<open>nib_load path\<close> is \<open>nib.load(path).get_fdata()\<close>
  (it stands for the files on disk), \<open>zoom\<close> is scipy's, \<open>marching_cubes\<close> (its first
  two results) and \<open>threshold_otsu\<close> are scikit-image's. Each may raise.
\<close>

record libs =
  nib_load :: "string \<Rightarrow> py_error + ndarray"
  zoom :: "ndarray \<Rightarrow> real \<Rightarrow> py_error + ndarray"
  marching_cubes :: "ndarray \<Rightarrow> real \<Rightarrow> py_error + surface"
  threshold_otsu :: "ndarray \<Rightarrow> py_error + real"

text \<open>Lines 35 and 36: the surface of a label mask.\<close>

definition label_surface :: "libs \<Rightarrow> ndarray \<Rightarrow> py_error + surface" where
  "label_surface L msk =
     (case zoom L (astype_float msk) DOWNSAMPLE_FACTOR of
        Inl e \<Rightarrow> Inl e
      | Inr small_volume \<Rightarrow> marching_cubes L small_volume 0.5)"

text \<open>Lines 137 and 139: the surface of the brain mask.\<close>

definition brain_surface :: "libs \<Rightarrow> ndarray \<Rightarrow> py_error + surface" where
  "brain_surface L brain_mask =
     (case zoom L (astype_float brain_mask) DOWNSAMPLE_FACTOR of
        Inl e \<Rightarrow> Inl e
      | Inr small_volume \<Rightarrow> marching_cubes L (astype_uint8 small_volume) 0.5)"

definition tumor_labels :: "(int \<times> string \<times> string \<times> real) list" where
  "tumor_labels =
     [(1, ''Edema'', ''yellow'', 0.3),
      (2, ''Necrotic'', ''red'', 0.8),
      (3, ''Enhancing'', ''lightblue'', 0.3)]"

text \<open>The body of the loop of line 30, for one label.\<close>

fun tumor_step :: "libs \<Rightarrow> ndarray \<Rightarrow> int \<times> string \<times> string \<times> real \<Rightarrow> mesh_dict \<Rightarrow> py_error + mesh_dict" where
  "tumor_step L seg_data (label, name, color, opacity) tumor_data =
     (let msk = eq_mask seg_data label
      in if np_sum msk = 0 then Inr tumor_data
         else
           (case label_surface L msk of
              Inl e \<Rightarrow> Inl e
            | Inr (verts, faces) \<Rightarrow>
                Inr (dict_setitem tumor_data name (Entry verts faces color opacity))))"

fun tumor_loop :: "libs \<Rightarrow> ndarray \<Rightarrow> (int \<times> string \<times> string \<times> real) list \<Rightarrow> mesh_dict \<Rightarrow> py_error + mesh_dict" where
  "tumor_loop L seg_data [] tumor_data = Inr tumor_data"
| "tumor_loop L seg_data (lab # rest) tumor_data =
     (case tumor_step L seg_data lab tumor_data of
        Inl e \<Rightarrow> Inl e
      | Inr tumor_data' \<Rightarrow> tumor_loop L seg_data rest tumor_data')"

text \<open>
  \<open>get_tumors\<close> reads the module global \<open>seg_path\<close>, not its parameter; the global
  is unbound (\<open>None\<close>) unless the file runs as a script.
\<close>

definition get_tumors :: "libs \<Rightarrow> string option \<Rightarrow> string \<Rightarrow> py_error + mesh_dict" where
  "get_tumors L seg_path tumor_path =
     (case seg_path of
        None \<Rightarrow> Inl (NameError ''seg_path'')
      | Some path \<Rightarrow>
          (case nib_load L path of
             Inl e \<Rightarrow> Inl e
           | Inr seg_data \<Rightarrow>
               tumor_loop L seg_data tumor_labels \<lparr> default_list = True, dict_items = [] \<rparr>))"

text \<open>Line 128; the two backslashes are kept by Python (\<open>\l\<close> and \<open>\B\<close> are no
  escapes).\<close>

definition main_seg_path :: string where
  "main_seg_path =
     ''Task01_BrainTumour'' @ [CHR 0x5C] @ ''labelsTr'' @ [CHR 0x5C] @ ''BRATS_001.nii.gz''"

text \<open>Lines 128 to 141: the mapping handed to the two exporters.\<close>

definition main_mesh_data :: "libs \<Rightarrow> py_error + mesh_dict" where
  "main_mesh_data L =
     (case get_tumors L (Some main_seg_path) main_seg_path of
        Inl e \<Rightarrow> Inl e
      | Inr tumor_data \<Rightarrow>
          (case nib_load L ''Task01_BrainTumour/imagesTr/BRATS_001.nii.gz'' of
             Inl e \<Rightarrow> Inl e
           | Inr img \<Rightarrow>
               (case take_channel img 3 of
                  Inl e \<Rightarrow> Inl e
                | Inr mri_data \<Rightarrow>
                    (case threshold_otsu L mri_data of
                       Inl e \<Rightarrow> Inl e
                     | Inr brain_threshold \<Rightarrow>
                         (case brain_surface L (gt_mask mri_data brain_threshold) of
                            Inl e \<Rightarrow> Inl e
                          | Inr (verts, faces) \<Rightarrow>
                              Inr (dict_setitem tumor_data ''brain''
                                     (Entry verts faces ''pink'' 0.2)))))))"

section \<open>Properties of surfaces and mappings\<close>

text \<open>
  Modelled from the spec: scikit-image's \<open>marching_cubes\<close> is not part of the
  repository. Its postcondition is the invariant the spec gives for a Surface, "every
  index triple's three indices are each less than the length of the point sequence",
  read for integer indices as "valid indices into its own point sequence".
\<close>

definition surface_ok :: "surface \<Rightarrow> bool" where
  "surface_ok s =
     list_all (\<lambda>(a, b, c).
         0 \<le> a \<and> a < int (length (fst s)) \<and>
         0 \<le> b \<and> b < int (length (fst s)) \<and>
         0 \<le> c \<and> c < int (length (fst s)))
       (snd s)"

definition marching_cubes_contract :: "libs \<Rightarrow> bool" where
  "marching_cubes_contract L =
     (\<forall>volume level s. marching_cubes L volume level = Inr s \<longrightarrow> surface_ok s)"

fun entry_ok :: "mesh_value \<Rightarrow> bool" where
  "entry_ok (Entry verts faces color opacity) = surface_ok (verts, faces)"
| "entry_ok EmptyList = False"

definition mesh_data_ok :: "mesh_dict \<Rightarrow> bool" where
  "mesh_data_ok d = list_all (\<lambda>kv. entry_ok (snd kv)) (dict_items d)"

text \<open>An entry that \<open>go.Mesh3d\<close> accepts: its colour is one, its opacity is in
  \<open>[0, 1]\<close> (as the spec has it for a Surface Entry).\<close>

fun mesh3d_accepts :: "(string \<Rightarrow> bool) \<Rightarrow> mesh_value \<Rightarrow> bool" where
  "mesh3d_accepts color_ok (Entry vertices faces color opacity) =
     (color_ok color \<and> 0 \<le> opacity \<and> opacity \<le> 1)"
| "mesh3d_accepts color_ok EmptyList = False"

text \<open>The trace of one item of the mapping: its columns, colour, opacity and name.\<close>

fun entry_layer :: "string \<times> mesh_value \<Rightarrow> mesh3d" where
  "entry_layer (name, Entry vertices faces color opacity) =
     \<lparr> mesh_x = map fst vertices,
       mesh_y = map (\<lambda>v. fst (snd v)) vertices,
       mesh_z = map (\<lambda>v. snd (snd v)) vertices,
       mesh_i = map fst faces,
       mesh_j = map (\<lambda>f. fst (snd f)) faces,
       mesh_k = map (\<lambda>f. snd (snd f)) faces,
       mesh_color = color,
       mesh_opacity = opacity,
       mesh_name = name \<rparr>"

section \<open>Stand-ins for the library routines, and example data\<close>

text \<open>
  Small executable instances of the four library parameters, on which the model can be
  run; they are not the library routines. \<open>toy_zoom\<close> resamples the values of an
  array linearly: \<open>m = round (n * factor)\<close> samples at the positions
  \<open>i * (n - 1) / (m - 1)\<close>. \<open>toy_marching_cubes\<close> finds the places where the values
  cross the level, by linear interpolation between neighbours, and puts one triangle at
  each; it raises when the level is not crossed. \<open>toy_threshold_otsu\<close> is the midpoint
  of the value range.
\<close>

definition toy_zoom :: "ndarray \<Rightarrow> real \<Rightarrow> py_error + ndarray" where
  "toy_zoom a factor =
     (let d = arr_data a;
          n = length d;
          m = nat \<lfloor>real n * factor + 1 / 2\<rfloor>;
          sample = (\<lambda>i.
             let pos = (if m \<le> 1 then 0 else real i * real (n - 1) / real (m - 1));
                 lo = nat \<lfloor>pos\<rfloor>;
                 hi = min (lo + 1) (n - 1)
             in d ! lo * (1 - (pos - real lo)) + d ! hi * (pos - real lo))
      in if n = 0 \<or> m = 0 then Inl (LibraryError ''zoom'')
         else Inr \<lparr> arr_shape = [m], arr_data = map sample [0..<m] \<rparr>)"

fun crossings :: "real \<Rightarrow> nat \<Rightarrow> real list \<Rightarrow> real list" where
  "crossings level i (a # b # rest) =
     (if (a < level) \<noteq> (b < level) then [real i + (level - a) / (b - a)] else [])
       @ crossings level (Suc i) (b # rest)"
| "crossings level i rest = []"

definition toy_marching_cubes :: "ndarray \<Rightarrow> real \<Rightarrow> py_error + surface" where
  "toy_marching_cubes a level =
     (let ps = crossings level 0 (arr_data a)
      in if ps = [] then Inl (LibraryError ''Surface level must be within volume data range.'')
         else Inr (concat (map (\<lambda>p. [(p, 0, 0), (p, 1, 0), (p, 0, 1)]) ps),
                   map (\<lambda>k. (3 * int k, 3 * int k + 1, 3 * int k + 2)) [0..<length ps]))"

definition toy_threshold_otsu :: "ndarray \<Rightarrow> py_error + real" where
  "toy_threshold_otsu a =
     (case arr_data a of
        [] \<Rightarrow> Inl (LibraryError ''threshold_otsu'')
      | x # xs \<Rightarrow> Inr ((fold min xs x + fold max xs x) / 2))"

text \<open>A segmentation of six voxels in which label 2 does not occur, and a four-channel
  image over the same voxels.\<close>

definition toy_seg :: ndarray where
  "toy_seg = \<lparr> arr_shape = [1, 1, 6], arr_data = [1, 1, 1, 0, 3, 3] \<rparr>"

definition toy_img :: ndarray where
  "toy_img = \<lparr> arr_shape = [1, 1, 6, 4],
               arr_data = [0, 0, 0, 0,  1, 2, 3, 8,  1, 2, 3, 9,
                           1, 2, 3, 7,  1, 2, 3, 8,  0, 0, 0, 0] \<rparr>"

definition toy_nib_load :: "string \<Rightarrow> py_error + ndarray" where
  "toy_nib_load path =
     (if path = main_seg_path then Inr toy_seg
      else if path = ''Task01_BrainTumour/imagesTr/BRATS_001.nii.gz'' then Inr toy_img
      else Inl (LibraryError ''FileNotFoundError''))"

definition toy_libs :: libs where
  "toy_libs = \<lparr> nib_load = toy_nib_load, zoom = toy_zoom,
                marching_cubes = toy_marching_cubes, threshold_otsu = toy_threshold_otsu \<rparr>"

text \<open>The mapping that lines 128 to 141 build from these files: the brain is its last
  key.\<close>

definition toy_mesh_data :: mesh_dict where
  "toy_mesh_data =
     \<lparr> default_list = True,
       dict_items =
         [(''Edema'', Entry [(3/2, 0, 0), (3/2, 1, 0), (3/2, 0, 1)] [(0, 1, 2)] ''yellow'' 0.3),
          (''Enhancing'', Entry [(9/4, 0, 0), (9/4, 1, 0), (9/4, 0, 1)] [(0, 1, 2)]
             ''lightblue'' 0.3),
          (''brain'', Entry [(1/2, 0, 0), (1/2, 1, 0), (1/2, 0, 1),
                             (5/2, 0, 0), (5/2, 1, 0), (5/2, 0, 1)]
                            [(0, 1, 2), (3, 4, 5)] ''pink'' 0.2)] \<rparr>"

text \<open>What \<open>get_tumors\<close> returns on the same files: no brain yet.\<close>

definition toy_tumor_data :: mesh_dict where
  "toy_tumor_data =
     \<lparr> default_list = True,
       dict_items =
         [(''Edema'', Entry [(3/2, 0, 0), (3/2, 1, 0), (3/2, 0, 1)] [(0, 1, 2)] ''yellow'' 0.3),
          (''Enhancing'', Entry [(9/4, 0, 0), (9/4, 1, 0), (9/4, 0, 1)] [(0, 1, 2)]
             ''lightblue'' 0.3)] \<rparr>"

text \<open>The four colour names of the script; plotly accepts each of them.\<close>

definition toy_color_ok :: "string \<Rightarrow> bool" where
  "toy_color_ok color = (color \<in> set [''pink'', ''red'', ''yellow'', ''lightblue''])"


definition green_mesh_data :: mesh_dict where
  "green_mesh_data =
     \<lparr> default_list = True,
       dict_items =
         [(''brain'', Entry [(0, 0, 0), (1, 0, 0), (0, 1, 0)] [(0, 1, 2)] ''pink'' 0.2),
          (''Edema'', Entry [(0, 0, 1), (1, 0, 1), (0, 1, 1)] [(0, 1, 2)] ''green'' 0.3),
          (''Enhancing'', Entry [(0, 0, 2), (1, 0, 2), (0, 1, 2)] [(0, 1, 2)]
             ''lightblue'' 0.3)] \<rparr>"

text \<open>A mapping in which two entries share a colour name.\<close>

definition yellow_mesh_data :: mesh_dict where
  "yellow_mesh_data =
     \<lparr> default_list = True,
       dict_items =
         [(''Edema'', Entry [(0, 0, 1), (1, 0, 1), (0, 1, 1)] [(0, 1, 2)] ''yellow'' 0.3),
          (''Enhancing'', Entry [(0, 0, 2), (1, 0, 2), (0, 1, 2)] [(0, 1, 2)] ''yellow'' 0.3),
          (''brain'', Entry [(0, 0, 0), (1, 0, 0), (0, 1, 0)] [(0, 1, 2)] ''pink'' 0.2)] \<rparr>"

section \<open>Lemmas about the exporters and the extraction\<close>

lemma getitem_present:
  "map_of (dict_items d) k = Some v \<Longrightarrow> dict_getitem d k = (Inr v, d)"
  by (simp add: dict_getitem_def)

lemma key_present:
  "k \<in> set (dict_keys d) \<Longrightarrow> \<exists>v. map_of (dict_items d) k = Some v"
  by (metis dict_keys_def map_of_eq_None_iff not_Some_eq set_map)

lemma html_loop_keeps_mapping:
  "set names \<subseteq> set (dict_keys d) \<Longrightarrow> fst (snd (html_loop color_ok names d data)) = d"
proof (induction names arbitrary: data)
  case Nil
  then show ?case by simp
next
  case (Cons name names)
  then have "name \<in> set (dict_keys d)" by simp
  then obtain v where v: "map_of (dict_items d) name = Some v"
    using key_present [of name d] by blast
  show ?case
    using Cons by (cases v) (simp_all add: getitem_present [OF v] split: sum.splits)
qed

lemma html_keeps_mapping:
  assumes "''brain'' \<in> set (dict_keys md)"
  shows "html_mesh_data (create_3d_html color_ok md) = md"
proof -
  obtain v where v: "map_of (dict_items md) ''brain'' = Some v"
    using assms key_present by blast
  show ?thesis
  proof (cases v)
    case (Entry vs fs c al)
    show ?thesis
    proof (cases "Mesh3d color_ok vs fs c al ''brain''")
      case (Inl e)
      then show ?thesis
        by (simp add: create_3d_html_def getitem_present [OF v] Entry)
    next
      case (Inr layer)
      have "fst (snd (html_loop color_ok (dict_keys md) md [layer])) = md"
        by (rule html_loop_keeps_mapping) simp
      then show ?thesis
        by (auto simp: create_3d_html_def getitem_present [OF v] Entry Inr
            split: prod.splits option.splits)
    qed
  next
    case EmptyList
    then show ?thesis
      by (simp add: create_3d_html_def getitem_present [OF v])
  qed
qed

lemma accepted_value:
  "list_all (\<lambda>kv. mesh3d_accepts color_ok (snd kv)) xs \<Longrightarrow> map_of xs k = Some v \<Longrightarrow>
     mesh3d_accepts color_ok v"
  by (induction xs) (auto split: if_splits)

lemma Mesh3d_accepted:
  "mesh3d_accepts color_ok (Entry vs fs c al) \<Longrightarrow>
     Mesh3d color_ok vs fs c al name = Inr (entry_layer (name, Entry vs fs c al))"
  by (simp add: Mesh3d_def)

lemma Mesh3d_rejected:
  "\<not> (color_ok c \<and> 0 \<le> al \<and> al \<le> 1) \<Longrightarrow>
     Mesh3d color_ok vs fs c al name = Inl ValueError"
  by (simp add: Mesh3d_def)

lemma html_loop_entries:
  assumes "list_all (\<lambda>kv. mesh3d_accepts color_ok (snd kv)) (dict_items d)"
  shows "set names \<subseteq> set (dict_keys d) \<Longrightarrow>
     html_loop color_ok names d data =
       (None, d, data @ map (\<lambda>n. entry_layer (n, the (map_of (dict_items d) n)))
                          (filter (\<lambda>n. n \<noteq> ''brain'') names))"
proof (induction names arbitrary: data)
  case Nil
  then show ?case by simp
next
  case (Cons name names)
  then have "name \<in> set (dict_keys d)" by simp
  then obtain v where v: "map_of (dict_items d) name = Some v"
    using key_present [of name d] by blast
  have acc: "mesh3d_accepts color_ok v" by (rule accepted_value [OF assms v])
  then obtain vs fs c al where e: "v = Entry vs fs c al" by (cases v) auto
  from acc have m: "Mesh3d color_ok vs fs c al name = Inr (entry_layer (name, Entry vs fs c al))"
    unfolding e by (rule Mesh3d_accepted)
  show ?case
    using Cons by (simp add: getitem_present [OF v] e v m)
qed

lemma layers_of_items:
  assumes "distinct (map fst xs)"
  shows "map (\<lambda>n. g (n, the (map_of xs n))) (filter P (map fst xs)) =
         map g (filter (\<lambda>kv. P (fst kv)) xs)"
proof -
  have "map (\<lambda>n. g (n, the (map_of xs n))) (filter P (map fst xs)) =
        map (\<lambda>kv. g (fst kv, the (map_of xs (fst kv)))) (filter (\<lambda>kv. P (fst kv)) xs)"
    by (simp add: filter_map comp_def)
  also have "\<dots> = map g (filter (\<lambda>kv. P (fst kv)) xs)"
    using assms by (intro map_cong refl) auto
  finally show ?thesis .
qed

lemma layers_match:
  "list_all (\<lambda>kv. is_entry (snd kv)) xs \<Longrightarrow>
   list_all2
     (\<lambda>kv layer.
        case snd kv of
          Entry vs fs c al \<Rightarrow>
            layer = \<lparr> mesh_x = map fst vs,
                      mesh_y = map (\<lambda>v. fst (snd v)) vs,
                      mesh_z = map (\<lambda>v. snd (snd v)) vs,
                      mesh_i = map fst fs,
                      mesh_j = map (\<lambda>f. fst (snd f)) fs,
                      mesh_k = map (\<lambda>f. snd (snd f)) fs,
                      mesh_color = c,
                      mesh_opacity = al,
                      mesh_name = fst kv \<rparr>
        | EmptyList \<Rightarrow> False)
     xs (map entry_layer xs)"
proof (induction xs)
  case Nil
  then show ?case by simp
next
  case (Cons kv xs)
  obtain name val where kv: "kv = (name, val)" by (cases kv)
  with Cons.prems obtain vs fs c al where val: "val = Entry vs fs c al"
    by (cases val) auto
  from Cons show ?case by (simp add: kv val)
qed

lemma binary_exponent_numeral:
  "binary_exponent (numeral k) x =
     (if 2 \<le> x then binary_exponent (pred_numeral k) (x / 2) + 1
      else if x < 1 then binary_exponent (pred_numeral k) (2 * x) - 1
      else 0)"
  by (simp add: numeral_eq_Suc)

lemma float32_values:
  "float32 0 = 0" "float32 1 = 1" "float32 (1 / 2) = 1 / 2"
  "float32 (9 / 10) = 15099494 / 16777216" "float32 (7 / 10) = 11744051 / 16777216"
  by (simp_all add: float32_def binary_exponent_numeral pow2_def round_half_even_def Let_def)

lemma meshes_define_entry:
  "meshes (define_entry name vs fs t st) = meshes st @
     [\<lparr> mesh_path = ''/World/'' @ name, points = map (\<lambda>(x, y, z). Gf_Vec3f x y z) vs,
        faceVertexIndices = flatten fs, faceVertexCounts = replicate (length fs) 3,
        normals = replicate (length vs) (Gf_Vec3f 0 0 1), normalsInterpolation = ''vertex'',
        material_binding = ''/Materials/'' @ name @ ''Mat'' \<rparr>]"
  by (simp add: define_entry_def Let_def)

lemma materials_define_entry:
  "materials (define_entry name vs fs t st) = materials st @
     [\<lparr> mat_path = ''/Materials/'' @ name @ ''Mat'',
        shader_path = ''/Materials/'' @ name @ ''Mat/Shader'',
        shader_id = ''UsdPreviewSurface'',
        diffuseColor = Gf_Vec3f (fst t) (fst (snd t)) (snd (snd t)) \<rparr>]"
  by (simp add: define_entry_def Let_def)

lemma length_flatten: "length (flatten fs) = 3 * length fs"
  by (induction fs) (auto simp: flatten_def)

lemma usdc_loop_meshes:
  "usdc_loop xs st = (err, st') \<Longrightarrow> m \<in> set (meshes st') \<Longrightarrow>
     m \<in> set (meshes st) \<or>
     (\<exists>name vs fs c al. (name, Entry vs fs c al) \<in> set xs
        \<and> mesh_path m = ''/World/'' @ name
        \<and> faceVertexCounts m = replicate (length fs) 3
        \<and> faceVertexIndices m = flatten fs)"
proof (induction xs arbitrary: st)
  case Nil
  then show ?case by simp
next
  case (Cons a xs)
  obtain name val where a: "a = (name, val)" by (cases a)
  show ?case
  proof (cases val)
    case EmptyList
    with Cons.prems a show ?thesis by simp
  next
    case (Entry vs fs c al)
    show ?thesis
    proof (cases "COLOR_MAP c")
      case None
      with Cons.prems a Entry show ?thesis by simp
    next
      case (Some t)
      with Cons.prems a Entry
      have run: "usdc_loop xs (define_entry name vs fs t st) = (err, st')" by simp
      from Cons.IH [OF run Cons.prems(2)] show ?thesis
        unfolding meshes_define_entry a Entry by fastforce
    qed
  qed
qed

lemma usdc_loop_materials:
  "usdc_loop xs st = (err, st') \<Longrightarrow> m \<in> set (materials st') \<Longrightarrow>
     m \<in> set (materials st) \<or>
     (\<exists>name vs fs c al t. (name, Entry vs fs c al) \<in> set xs
        \<and> COLOR_MAP c = Some t
        \<and> mat_path m = ''/Materials/'' @ name @ ''Mat''
        \<and> diffuseColor m = Gf_Vec3f (fst t) (fst (snd t)) (snd (snd t)))"
proof (induction xs arbitrary: st)
  case Nil
  then show ?case by simp
next
  case (Cons a xs)
  obtain name val where a: "a = (name, val)" by (cases a)
  show ?case
  proof (cases val)
    case EmptyList
    with Cons.prems a show ?thesis by simp
  next
    case (Entry vs fs c al)
    show ?thesis
    proof (cases "COLOR_MAP c")
      case None
      with Cons.prems a Entry show ?thesis by simp
    next
      case (Some t)
      with Cons.prems a Entry
      have run: "usdc_loop xs (define_entry name vs fs t st) = (err, st')" by simp
      let ?R = "\<lambda>ys. \<exists>name vs fs c al t. (name, Entry vs fs c al) \<in> set ys
            \<and> COLOR_MAP c = Some t
            \<and> mat_path m = ''/Materials/'' @ name @ ''Mat''
            \<and> diffuseColor m = Gf_Vec3f (fst t) (fst (snd t)) (snd (snd t))"
      have mono: "?R xs \<Longrightarrow> ?R (a # xs)"
        by (meson list.set_intros(2))
      have head: "(name, Entry vs fs c al) \<in> set (a # xs)" by (simp add: a Entry)
      from Cons.IH [OF run Cons.prems(2)]
      have "m \<in> set (materials (define_entry name vs fs t st)) \<or> ?R xs" .
      moreover have "m \<in> set (materials (define_entry name vs fs t st)) \<Longrightarrow>
          m \<in> set (materials st) \<or>
          (mat_path m = ''/Materials/'' @ name @ ''Mat''
            \<and> diffuseColor m = Gf_Vec3f (fst t) (fst (snd t)) (snd (snd t)))"
        unfolding materials_define_entry by auto
      ultimately consider (old) "m \<in> set (materials st)"
        | (new) "mat_path m = ''/Materials/'' @ name @ ''Mat''"
            "diffuseColor m = Gf_Vec3f (fst t) (fst (snd t)) (snd (snd t))"
        | (rest) "?R xs"
        by blast
      then show ?thesis
      proof cases
        case old
        then show ?thesis by simp
      next
        case new
        with head Some have "?R (a # xs)" by blast
        then show ?thesis by simp
      next
        case rest
        then have "?R (a # xs)" by (rule mono)
        then show ?thesis by simp
      qed
    qed
  qed
qed

lemma usdc_loop_complete:
  "usdc_loop xs st = (None, st') \<Longrightarrow>
     map mesh_path (meshes st') =
       map mesh_path (meshes st) @ map (\<lambda>kv. ''/World/'' @ fst kv) xs"
proof (induction xs arbitrary: st)
  case Nil
  then show ?case by simp
next
  case (Cons a xs)
  obtain name val where a: "a = (name, val)" by (cases a)
  from Cons.prems a obtain vs fs c al where val: "val = Entry vs fs c al"
    by (cases val) auto
  with Cons.prems a obtain t where t: "COLOR_MAP c = Some t"
    by (cases "COLOR_MAP c") auto
  with Cons.prems a val
  have run: "usdc_loop xs (define_entry name vs fs t st) = (None, st')" by simp
  from Cons.IH [OF run] show ?case
    by (simp add: meshes_define_entry a)
qed

lemma usdc_loop_unknown_color:
  "list_all (\<lambda>kv. is_entry (snd kv)) xs \<Longrightarrow> distinct (map fst xs) \<Longrightarrow>
   (name, Entry vs fs c al) \<in> set xs \<Longrightarrow> COLOR_MAP c = None \<Longrightarrow>
   ''/Materials/'' @ name @ ''Mat'' \<notin> mat_path ` set (materials st) \<Longrightarrow>
   \<exists>c' st'. usdc_loop xs st = (Some (KeyError c'), st') \<and> COLOR_MAP c' = None
      \<and> ''/Materials/'' @ name @ ''Mat'' \<notin> mat_path ` set (materials st')"
proof (induction xs arbitrary: st)
  case Nil
  then show ?case by simp
next
  case (Cons a xs)
  obtain name' val where a: "a = (name', val)" by (cases a)
  from Cons.prems(1) a obtain vs' fs' c' al' where val: "val = Entry vs' fs' c' al'"
    by (cases val) auto
  show ?case
  proof (cases "COLOR_MAP c'")
    case None
    with Cons.prems a val show ?thesis by simp
  next
    case (Some t)
    with Cons.prems a val have mem: "(name, Entry vs fs c al) \<in> set xs" by auto
    with Cons.prems(2) a have ne: "name \<noteq> name'" by force
    have fresh: "''/Materials/'' @ name @ ''Mat'' \<notin>
        mat_path ` set (materials (define_entry name' vs' fs' t st))"
      using Cons.prems(5) ne by (simp add: materials_define_entry)
    from Cons.prems(1,2) have "list_all (\<lambda>kv. is_entry (snd kv)) xs" "distinct (map fst xs)"
      by simp_all
    from Cons.IH [OF this mem Cons.prems(4) fresh] show ?thesis
      by (simp add: a val Some)
  qed
qed

lemma mesh_counts:
  assumes "m \<in> set (meshes (usd_built (create_usdc_with_materials filename md)))"
  shows "(\<forall>n \<in> set (faceVertexCounts m). n = 3)
       \<and> (\<exists>name vs fs c al. (name, Entry vs fs c al) \<in> set (dict_items md)
             \<and> mesh_path m = ''/World/'' @ name
             \<and> length (faceVertexCounts m) = length fs
             \<and> length (faceVertexIndices m) = 3 * length fs)"
proof -
  let ?st = "\<lparr> stage_filename = filename, default_prim = ''/World'', meshes = [], materials = [] \<rparr>"
  obtain err st' where run: "usdc_loop (dict_items md) ?st = (err, st')"
    by (cases "usdc_loop (dict_items md) ?st")
  with assms have "m \<in> set (meshes st')"
    by (cases err) (simp_all add: create_usdc_with_materials_def)
  from usdc_loop_meshes [OF run this]
  obtain name vs fs c al where "(name, Entry vs fs c al) \<in> set (dict_items md)"
    "mesh_path m = ''/World/'' @ name" "faceVertexCounts m = replicate (length fs) 3"
    "faceVertexIndices m = flatten fs" by auto
  moreover from this have "\<forall>n \<in> set (faceVertexCounts m). n = 3"
    "length (faceVertexCounts m) = length fs" "length (faceVertexIndices m) = 3 * length fs"
    by (simp_all add: length_flatten)
  ultimately show ?thesis by blast
qed

lemma toy_get_tumors: "get_tumors toy_libs (Some main_seg_path) p = Inr toy_tumor_data"
  by (simp add: get_tumors_def toy_libs_def toy_nib_load_def toy_seg_def tumor_labels_def
      eq_mask_def np_sum_def label_surface_def astype_float_def DOWNSAMPLE_FACTOR_def
      toy_zoom_def toy_marching_cubes_def Let_def upt_rec dict_setitem_def toy_tumor_data_def)

lemma toy_main: "main_mesh_data toy_libs = Inr toy_mesh_data"
  by (simp add: main_mesh_data_def toy_get_tumors)
   (simp add: toy_libs_def toy_nib_load_def main_seg_path_def toy_img_def take_channel_def
      toy_threshold_otsu_def gt_mask_def brain_surface_def astype_float_def astype_uint8_def
      to_uint8_def DOWNSAMPLE_FACTOR_def toy_zoom_def toy_marching_cubes_def Let_def upt_rec
      dict_setitem_def toy_tumor_data_def toy_mesh_data_def)

lemma keys_setitem:
  "set (dict_keys (dict_setitem d k v)) = insert k (set (dict_keys d))"
  using dom_update [of k v "dict_items d"] by (simp add: dict_keys_def dict_setitem_def)

lemma list_all_update:
  "P (k, v) \<Longrightarrow> list_all P xs \<Longrightarrow> list_all P (AList.update k v xs)"
  by (induction xs) auto

lemma label_surface_ok:
  assumes "marching_cubes_contract L" and "label_surface L m = Inr s"
  shows "surface_ok s"
proof -
  from assms(2) obtain small where "marching_cubes L small 0.5 = Inr s"
    by (auto simp: label_surface_def split: sum.splits)
  with assms(1) show ?thesis
    unfolding marching_cubes_contract_def by blast
qed

lemma brain_surface_ok:
  assumes "marching_cubes_contract L" and "brain_surface L m = Inr s"
  shows "surface_ok s"
proof -
  from assms(2) obtain small where "marching_cubes L small 0.5 = Inr s"
    by (auto simp: brain_surface_def split: sum.splits)
  with assms(1) show ?thesis
    unfolding marching_cubes_contract_def by blast
qed

lemma setitem_ok:
  "mesh_data_ok d \<Longrightarrow> surface_ok (verts, faces) \<Longrightarrow>
     mesh_data_ok (dict_setitem d k (Entry verts faces color opacity))"
  by (simp add: mesh_data_ok_def dict_setitem_def list_all_update)

lemma tumor_step_ok:
  assumes "marching_cubes_contract L" and "mesh_data_ok td"
    and "tumor_step L seg_data lab td = Inr td'"
  shows "mesh_data_ok td'"
proof -
  obtain label name color opacity where lab: "lab = (label, name, color, opacity)"
    by (cases lab)
  show ?thesis
  proof (cases "np_sum (eq_mask seg_data label) = 0")
    case True
    with assms lab show ?thesis by simp
  next
    case False
    with assms(3) lab obtain verts faces where
      s: "label_surface L (eq_mask seg_data label) = Inr (verts, faces)"
      and td': "td' = dict_setitem td name (Entry verts faces color opacity)"
      by (auto simp: Let_def split: sum.splits)
    from label_surface_ok [OF assms(1) s] assms(2) show ?thesis
      unfolding td' by (rule setitem_ok [rotated])
  qed
qed

lemma tumor_loop_ok:
  "marching_cubes_contract L \<Longrightarrow> mesh_data_ok td \<Longrightarrow>
     tumor_loop L seg_data labs td = Inr td' \<Longrightarrow> mesh_data_ok td'"
proof (induction labs arbitrary: td)
  case Nil
  then show ?case by simp
next
  case (Cons lab labs)
  from Cons.prems(3) obtain td1 where
    step: "tumor_step L seg_data lab td = Inr td1"
    and rest: "tumor_loop L seg_data labs td1 = Inr td'"
    by (auto split: sum.splits)
  from Cons.IH [OF Cons.prems(1) tumor_step_ok [OF Cons.prems(1,2) step] rest]
  show ?case .
qed

lemma tumor_step_keys:
  assumes "tumor_step L seg_data lab td = Inr td'"
  shows "set (dict_keys td') =
     set (dict_keys td) \<union>
       (if np_sum (eq_mask seg_data (fst lab)) = 0 then {} else {fst (snd lab)})"
proof -
  obtain label name color opacity where lab: "lab = (label, name, color, opacity)"
    by (cases lab)
  show ?thesis
    using assms unfolding lab
    by (auto simp: Let_def keys_setitem split: sum.splits if_splits)
qed

lemma collect_Cons:
  "{f x | x. x \<in> set (a # xs) \<and> P x} =
     (if P a then {f a} else {}) \<union> {f x | x. x \<in> set xs \<and> P x}"
  by auto

lemma tumor_loop_keys:
  "tumor_loop L seg_data labs td = Inr td' \<Longrightarrow>
     set (dict_keys td') =
       set (dict_keys td) \<union>
         {fst (snd lab) | lab. lab \<in> set labs \<and> np_sum (eq_mask seg_data (fst lab)) \<noteq> 0}"
proof (induction labs arbitrary: td)
  case Nil
  then show ?case by simp
next
  case (Cons lab labs)
  from Cons.prems obtain td1 where
    step: "tumor_step L seg_data lab td = Inr td1"
    and rest: "tumor_loop L seg_data labs td1 = Inr td'"
    by (auto split: sum.splits)
  show ?case
    unfolding Cons.IH [OF rest] tumor_step_keys [OF step]
      collect_Cons [of "\<lambda>lab. fst (snd lab)" lab labs "\<lambda>lab. np_sum (eq_mask seg_data (fst lab)) \<noteq> 0"]
    by (simp add: Un_assoc)
qed

lemma get_tumors_keys:
  assumes "nib_load L path = Inr seg_data" and "get_tumors L (Some path) p = Inr td"
  shows "set (dict_keys td) =
     {fst (snd lab) | lab. lab \<in> set tumor_labels \<and> np_sum (eq_mask seg_data (fst lab)) \<noteq> 0}"
proof -
  from assms have "tumor_loop L seg_data tumor_labels \<lparr>default_list = True, dict_items = []\<rparr> = Inr td"
    by (simp add: get_tumors_def)
  from tumor_loop_keys [OF this] show ?thesis
    by (simp add: dict_keys_def)
qed

lemma get_tumors_ok:
  assumes "marching_cubes_contract L" and "get_tumors L g p = Inr td"
  shows "mesh_data_ok td"
proof -
  from assms(2) obtain seg_data where
    "tumor_loop L seg_data tumor_labels \<lparr>default_list = True, dict_items = []\<rparr> = Inr td"
    by (auto simp: get_tumors_def split: option.splits sum.splits)
  moreover have "mesh_data_ok \<lparr>default_list = True, dict_items = []\<rparr>"
    by (simp add: mesh_data_ok_def)
  ultimately show ?thesis
    using tumor_loop_ok [OF assms(1)] by blast
qed

lemma main_mesh_data_cases:
  assumes "main_mesh_data L = Inr md"
  obtains td verts faces where
    "get_tumors L (Some main_seg_path) main_seg_path = Inr td"
    "md = dict_setitem td ''brain'' (Entry verts faces ''pink'' 0.2)"
    "\<exists>m. brain_surface L m = Inr (verts, faces)"
  using assms
  by (auto simp: main_mesh_data_def split: sum.splits)

lemma main_mesh_data_ok:
  assumes "marching_cubes_contract L" and "main_mesh_data L = Inr md"
  shows "mesh_data_ok md"
proof -
  from assms(2) obtain td verts faces m where
    td: "get_tumors L (Some main_seg_path) main_seg_path = Inr td"
    and md: "md = dict_setitem td ''brain'' (Entry verts faces ''pink'' 0.2)"
    and s: "brain_surface L m = Inr (verts, faces)"
    by (rule main_mesh_data_cases) blast
  from get_tumors_ok [OF assms(1) td] brain_surface_ok [OF assms(1) s]
  show ?thesis unfolding md by (rule setitem_ok)
qed

lemma length_triangles:
  "length (concat (map (\<lambda>p. [(p, 0, 0), (p, 1, 0), (p, 0::real, 1::real)]) ps)) = 3 * length ps"
  by (induction ps) auto

lemma toy_contract: "marching_cubes_contract toy_libs"
  unfolding marching_cubes_contract_def
proof (intro allI impI)
  fix volume level s
  assume "marching_cubes toy_libs volume level = Inr s"
  then have s: "s = (concat (map (\<lambda>p. [(p, 0, 0), (p, 1, 0), (p, 0, 1)])
                        (crossings level 0 (arr_data volume))),
                     map (\<lambda>k. (3 * int k, 3 * int k + 1, 3 * int k + 2))
                        [0..<length (crossings level 0 (arr_data volume))])"
    by (auto simp: toy_libs_def toy_marching_cubes_def Let_def split: if_splits)
  show "surface_ok s"
    unfolding s surface_ok_def by (simp add: length_triangles list_all_iff)
qed

lemma usdc_loop_complete_materials:
  "usdc_loop xs st = (None, st') \<Longrightarrow>
     map mat_path (materials st') =
       map mat_path (materials st) @ map (\<lambda>kv. ''/Materials/'' @ fst kv @ ''Mat'') xs"
proof (induction xs arbitrary: st)
  case Nil
  then show ?case by simp
next
  case (Cons a xs)
  obtain name val where a: "a = (name, val)" by (cases a)
  from Cons.prems a obtain vs fs c al where val: "val = Entry vs fs c al"
    by (cases val) auto
  with Cons.prems a obtain t where t: "COLOR_MAP c = Some t"
    by (cases "COLOR_MAP c") auto
  with Cons.prems a val
  have run: "usdc_loop xs (define_entry name vs fs t st) = (None, st')" by simp
  from Cons.IH [OF run] show ?case
    by (simp add: materials_define_entry a)
qed

lemma usdc_run_loop:
  obtains err st' where
    "usdc_loop (dict_items md)
       \<lparr> stage_filename = filename, default_prim = ''/World'', meshes = [], materials = [] \<rparr>
       = (err, st')"
    "usd_error (create_usdc_with_materials filename md) = err"
    "usd_built (create_usdc_with_materials filename md) = st'"
proof -
  let ?st = "\<lparr> stage_filename = filename, default_prim = ''/World'', meshes = [], materials = [] \<rparr>"
  obtain err st' where run: "usdc_loop (dict_items md) ?st = (err, st')"
    by (cases "usdc_loop (dict_items md) ?st")
  then have "usd_error (create_usdc_with_materials filename md) = err"
    "usd_built (create_usdc_with_materials filename md) = st'"
    by (cases err; simp add: create_usdc_with_materials_def)+
  with run show ?thesis using that by blast
qed

lemma value_unique:
  "distinct (map fst xs) \<Longrightarrow> (k, v) \<in> set xs \<Longrightarrow> (k, v') \<in> set xs \<Longrightarrow> v = v'"
  by (metis map_of_is_SomeI option.inject)

lemma material_color:
  assumes "dict_ok md"
    and "m \<in> set (materials (usd_built (create_usdc_with_materials filename md)))"
    and "(name, Entry vs fs color al) \<in> set (dict_items md)"
    and "mat_path m = ''/Materials/'' @ name @ ''Mat''"
  shows "\<exists>r g b. COLOR_MAP color = Some (r, g, b)
           \<and> diffuseColor m = Vec3f (float32 r) (float32 g) (float32 b)"
proof -
  obtain err st' where run: "usdc_loop (dict_items md)
       \<lparr> stage_filename = filename, default_prim = ''/World'', meshes = [], materials = [] \<rparr>
       = (err, st')"
    and built: "usd_built (create_usdc_with_materials filename md) = st'"
    by (rule usdc_run_loop)
  from assms(2) built have "m \<in> set (materials st')" by simp
  from usdc_loop_materials [OF run this]
  obtain name' vs' fs' c' al' t where
    mem: "(name', Entry vs' fs' c' al') \<in> set (dict_items md)"
    and t: "COLOR_MAP c' = Some t"
    and path: "mat_path m = ''/Materials/'' @ name' @ ''Mat''"
    and col: "diffuseColor m = Gf_Vec3f (fst t) (fst (snd t)) (snd (snd t))"
    by auto
  from path assms(4) have "name' = name" by simp
  with mem have mem': "(name, Entry vs' fs' c' al') \<in> set (dict_items md)" by simp
  have d: "distinct (map fst (dict_items md))"
    using assms(1) by (simp add: dict_ok_def dict_keys_def)
  have "Entry vs' fs' c' al' = Entry vs fs color al"
    by (rule value_unique [OF d mem' assms(3)])
  then have "c' = color" by simp
  with t col show ?thesis by (cases t) (auto simp: Gf_Vec3f_def)
qed

lemma yellow_run:
  "map diffuseColor (materials (usd_built (create_usdc_with_materials ''brain_with_tumor.usdc'' yellow_mesh_data)))
     = [Vec3f (15099494 / 16777216) (15099494 / 16777216) (1 / 2),
        Vec3f (15099494 / 16777216) (15099494 / 16777216) (1 / 2),
        Vec3f (15099494 / 16777216) (11744051 / 16777216) (11744051 / 16777216)]"
  by (simp add: create_usdc_with_materials_def yellow_mesh_data_def COLOR_MAP_def
      define_entry_def Let_def flatten_def Gf_Vec3f_def float32_values)

lemma tumor_step_skip:
  "np_sum (eq_mask seg_data (fst lab)) = 0 \<Longrightarrow> tumor_step L seg_data lab td = Inr td"
  by (cases lab) simp

lemma tumor_label_names:
  "lab \<in> set tumor_labels \<Longrightarrow> lab' \<in> set tumor_labels \<Longrightarrow>
     fst (snd lab') = fst (snd lab) \<Longrightarrow> lab' = lab"
  by (auto simp: tumor_labels_def)

lemma collect_filter:
  "{f x | x. x \<in> set xs \<and> P x} = set (map f (filter P xs))"
  by auto

section \<open>The claims\<close>

text \<open>
  Claim C1, as stated, fails on the mapping \<open>get_tumors\<close> builds. That mapping is a
  \<open>defaultdict(list)\<close> (line 21): on it \<open>mesh_data['brain']\<close> raises no KeyError but
  binds \<open>'brain'\<close> to \<open>[]\<close>, and the unpacking of line 47 then raises ValueError.
\<close>

theorem create_3d_html_defaultdict_counterexample:
  "''brain'' \<notin> set (dict_keys toy_tumor_data)
   \<and> surface_entries toy_tumor_data
   \<and> html_error (create_3d_html toy_color_ok toy_tumor_data) = Some ValueError
   \<and> html_error (create_3d_html toy_color_ok toy_tumor_data) \<noteq> Some (KeyError ''brain'')"
  by (simp add: toy_tumor_data_def dict_keys_def surface_entries_def dict_ok_def
      create_3d_html_def dict_getitem_def)

text \<open>
  Claim C1, amended. For every mapping without the key \<open>'brain'\<close>, \<open>create_3d_html\<close>
  fails at line 47, before any trace is appended to \<open>data\<close> and before any file is
  written. On a plain \<open>dict\<close> the exception is \<open>KeyError('brain')\<close> and the mapping is
  left as it was; on a \<open>defaultdict(list)\<close> it is the ValueError of the unpacking, and
  the mapping has gained the key \<open>'brain'\<close>, bound to \<open>[]\<close>.
\<close>

theorem create_3d_html_without_brain:
  assumes "''brain'' \<notin> set (dict_keys md)"
  shows "html_data (create_3d_html color_ok md) = []
       \<and> html_file (create_3d_html color_ok md) = None
       \<and> html_error (create_3d_html color_ok md) =
           Some (if default_list md then ValueError else KeyError ''brain'')
       \<and> html_mesh_data (create_3d_html color_ok md) =
           (if default_list md then md\<lparr>dict_items := dict_items md @ [(''brain'', EmptyList)]\<rparr> else md)"
proof -
  have "map_of (dict_items md) ''brain'' = None"
    using assms by (simp add: dict_keys_def map_of_eq_None_iff)
  then show ?thesis
    by (simp add: create_3d_html_def dict_getitem_def)
qed

text \<open>
  Claim C1, amended, on the mapping returned by \<open>get_tumors\<close> for the example files,
  as a defaultdict and as a plain dict.
\<close>

theorem create_3d_html_without_brain_witness:
  "''brain'' \<notin> set (dict_keys toy_tumor_data)
   \<and> html_data (create_3d_html toy_color_ok toy_tumor_data) = []
   \<and> html_file (create_3d_html toy_color_ok toy_tumor_data) = None
   \<and> html_error (create_3d_html toy_color_ok toy_tumor_data) = Some ValueError
   \<and> map fst (dict_items (html_mesh_data (create_3d_html toy_color_ok toy_tumor_data)))
       = [''Edema'', ''Enhancing'', ''brain'']
   \<and> html_error (create_3d_html toy_color_ok (toy_tumor_data\<lparr>default_list := False\<rparr>))
       = Some (KeyError ''brain'')
   \<and> html_mesh_data (create_3d_html toy_color_ok (toy_tumor_data\<lparr>default_list := False\<rparr>))
       = toy_tumor_data\<lparr>default_list := False\<rparr>"
proof -
  have a: "''brain'' \<notin> set (dict_keys toy_tumor_data)"
    by (simp add: toy_tumor_data_def dict_keys_def)
  have b: "''brain'' \<notin> set (dict_keys (toy_tumor_data\<lparr>default_list := False\<rparr>))"
    by (simp add: toy_tumor_data_def dict_keys_def)
  have t: "default_list toy_tumor_data" by (simp add: toy_tumor_data_def)
  from create_3d_html_without_brain [OF a, of toy_color_ok]
    create_3d_html_without_brain [OF b, of toy_color_ok] a t show ?thesis
    by (simp add: toy_tumor_data_def)
qed



text \<open>
  Claim C3. Let \<open>seg_data\<close> be the segmentation loaded from the path of line 128. For
  every label of \<open>tumor_labels\<close> whose mask sums to zero, the loop body returns normally
  with the mapping unchanged, whatever the library routines do, and the name of that label
  is not a key of the mapping \<open>get_tumors\<close> returns. If label 2 is empty and labels 1
  and 3 are not, the keys of the mapping built by lines 128 to 141 are exactly
  \<open>'brain'\<close>, \<open>'Edema'\<close> and \<open>'Enhancing'\<close>, and \<open>'Necrotic'\<close> is not among
  them.
\<close>

theorem empty_label_is_skipped:
  assumes "nib_load L main_seg_path = Inr seg_data"
  shows "(\<forall>lab \<in> set tumor_labels. np_sum (eq_mask seg_data (fst lab)) = 0 \<longrightarrow>
            (\<forall>td. tumor_step L seg_data lab td = Inr td)
            \<and> (\<forall>p td. get_tumors L (Some main_seg_path) p = Inr td \<longrightarrow>
                  fst (snd lab) \<notin> set (dict_keys td)))
       \<and> (np_sum (eq_mask seg_data 2) = 0 \<and> np_sum (eq_mask seg_data 1) \<noteq> 0
            \<and> np_sum (eq_mask seg_data 3) \<noteq> 0 \<longrightarrow>
            (\<forall>md. main_mesh_data L = Inr md \<longrightarrow>
               set (dict_keys md) = {''brain'', ''Edema'', ''Enhancing''}
               \<and> ''Necrotic'' \<notin> set (dict_keys md)))"
proof (rule conjI)
  show "\<forall>lab \<in> set tumor_labels. np_sum (eq_mask seg_data (fst lab)) = 0 \<longrightarrow>
            (\<forall>td. tumor_step L seg_data lab td = Inr td)
            \<and> (\<forall>p td. get_tumors L (Some main_seg_path) p = Inr td \<longrightarrow>
                  fst (snd lab) \<notin> set (dict_keys td))"
  proof (intro ballI impI conjI allI)
    fix lab :: "int \<times> string \<times> string \<times> real" and td
    assume "np_sum (eq_mask seg_data (fst lab)) = 0"
    then show "tumor_step L seg_data lab td = Inr td" by (rule tumor_step_skip)
  next
    fix lab :: "int \<times> string \<times> string \<times> real" and p td
    assume lab: "lab \<in> set tumor_labels" and empty: "np_sum (eq_mask seg_data (fst lab)) = 0"
      and run: "get_tumors L (Some main_seg_path) p = Inr td"
    show "fst (snd lab) \<notin> set (dict_keys td)"
    proof
      assume "fst (snd lab) \<in> set (dict_keys td)"
      then obtain lab' where "lab' \<in> set tumor_labels" "fst (snd lab') = fst (snd lab)"
        "np_sum (eq_mask seg_data (fst lab')) \<noteq> 0"
        unfolding get_tumors_keys [OF assms run] by auto
      with lab empty show False using tumor_label_names by blast
    qed
  qed
next
  show "np_sum (eq_mask seg_data 2) = 0 \<and> np_sum (eq_mask seg_data 1) \<noteq> 0
            \<and> np_sum (eq_mask seg_data 3) \<noteq> 0 \<longrightarrow>
            (\<forall>md. main_mesh_data L = Inr md \<longrightarrow>
               set (dict_keys md) = {''brain'', ''Edema'', ''Enhancing''}
               \<and> ''Necrotic'' \<notin> set (dict_keys md))"
  proof (intro impI allI)
    fix md
    assume masks: "np_sum (eq_mask seg_data 2) = 0 \<and> np_sum (eq_mask seg_data 1) \<noteq> 0
            \<and> np_sum (eq_mask seg_data 3) \<noteq> 0"
      and run: "main_mesh_data L = Inr md"
    from run obtain td verts faces where
      td: "get_tumors L (Some main_seg_path) main_seg_path = Inr td"
      and md: "md = dict_setitem td ''brain'' (Entry verts faces ''pink'' 0.2)"
      by (rule main_mesh_data_cases)
    have "set (dict_keys td) = {''Edema'', ''Enhancing''}"
      unfolding get_tumors_keys [OF assms td] collect_filter using masks
      by (simp add: tumor_labels_def insert_commute)
    then have "set (dict_keys md) = {''brain'', ''Edema'', ''Enhancing''}"
      unfolding md keys_setitem by simp
    then show "set (dict_keys md) = {''brain'', ''Edema'', ''Enhancing''}
               \<and> ''Necrotic'' \<notin> set (dict_keys md)"
      by simp
  qed
qed

text \<open>
  Claim C3 on the example files: label 2 does not occur, and the run returns the mapping
  \<open>toy_mesh_data\<close>.
\<close>

theorem empty_label_is_skipped_witness:
  "nib_load toy_libs main_seg_path = Inr toy_seg
   \<and> np_sum (eq_mask toy_seg 2) = 0
   \<and> np_sum (eq_mask toy_seg 1) \<noteq> 0
   \<and> np_sum (eq_mask toy_seg 3) \<noteq> 0
   \<and> tumor_step toy_libs toy_seg (2, ''Necrotic'', ''red'', 0.8) toy_tumor_data = Inr toy_tumor_data
   \<and> main_mesh_data toy_libs = Inr toy_mesh_data
   \<and> set (dict_keys toy_mesh_data) = {''brain'', ''Edema'', ''Enhancing''}
   \<and> ''Necrotic'' \<notin> set (dict_keys toy_mesh_data)"
proof -
  have l: "nib_load toy_libs main_seg_path = Inr toy_seg"
    by (simp add: toy_libs_def toy_nib_load_def)
  have m: "np_sum (eq_mask toy_seg 2) = 0" "np_sum (eq_mask toy_seg 1) \<noteq> 0"
    "np_sum (eq_mask toy_seg 3) \<noteq> 0"
    by (simp_all add: np_sum_def eq_mask_def toy_seg_def)
  have n: "(2, ''Necrotic'', ''red'', 0.8) \<in> set tumor_labels"
    by (simp add: tumor_labels_def)
  note c = empty_label_is_skipped [OF l]
  from c n m(1) have "tumor_step toy_libs toy_seg (2, ''Necrotic'', ''red'', 0.8) toy_tumor_data
      = Inr toy_tumor_data"
    by fastforce
  moreover from c m toy_main have "set (dict_keys toy_mesh_data) = {''brain'', ''Edema'', ''Enhancing''}
      \<and> ''Necrotic'' \<notin> set (dict_keys toy_mesh_data)"
    by blast
  ultimately show ?thesis using l m toy_main by simp
qed

text \<open>
  Claim C4. For every mapping of surface entries that has the key \<open>'brain'\<close> and whose
  entries \<open>go.Mesh3d\<close> accepts, \<open>create_3d_html\<close> raises nothing and writes a figure
  whose first trace carries the vertex columns, the face columns, the colour and the
  opacity of the \<open>'brain'\<close> entry under the name \<open>'brain'\<close>, and whose other traces
  are, in the order of the mapping, one per remaining item, each carrying that item's
  vertex columns, face columns, colour, opacity and name. This holds wherever \<open>'brain'\<close>
  stands in the mapping.
\<close>

theorem create_3d_html_brain_first:
  assumes "surface_entries mesh_data"
    and "list_all (\<lambda>kv. mesh3d_accepts color_ok (snd kv)) (dict_items mesh_data)"
    and "map_of (dict_items mesh_data) ''brain'' = Some (Entry vertices faces color opacity)"
  shows "html_error (create_3d_html color_ok mesh_data) = None
       \<and> (\<exists>layers.
            html_file (create_3d_html color_ok mesh_data) =
              Some (\<lparr> mesh_x = map fst vertices,
                      mesh_y = map (\<lambda>v. fst (snd v)) vertices,
                      mesh_z = map (\<lambda>v. snd (snd v)) vertices,
                      mesh_i = map fst faces,
                      mesh_j = map (\<lambda>f. fst (snd f)) faces,
                      mesh_k = map (\<lambda>f. snd (snd f)) faces,
                      mesh_color = color,
                      mesh_opacity = opacity,
                      mesh_name = ''brain'' \<rparr> # layers)
            \<and> list_all2
                (\<lambda>kv layer.
                   case snd kv of
                     Entry vs fs c al \<Rightarrow>
                       layer = \<lparr> mesh_x = map fst vs,
                             mesh_y = map (\<lambda>v. fst (snd v)) vs,
                             mesh_z = map (\<lambda>v. snd (snd v)) vs,
                             mesh_i = map fst fs,
                             mesh_j = map (\<lambda>f. fst (snd f)) fs,
                             mesh_k = map (\<lambda>f. snd (snd f)) fs,
                             mesh_color = c,
                             mesh_opacity = al,
                             mesh_name = fst kv \<rparr>
                   | EmptyList \<Rightarrow> False)
                (filter (\<lambda>kv. fst kv \<noteq> ''brain'') (dict_items mesh_data)) layers)"
proof -
  let ?rest = "filter (\<lambda>kv. fst kv \<noteq> ''brain'') (dict_items mesh_data)"
  have dist: "distinct (map fst (dict_items mesh_data))"
    using assms(1) by (simp add: surface_entries_def dict_ok_def dict_keys_def)
  have "mesh3d_accepts color_ok (Entry vertices faces color opacity)"
    by (rule accepted_value [OF assms(2,3)])
  then have brain: "Mesh3d color_ok vertices faces color opacity ''brain'' =
      Inr (entry_layer (''brain'', Entry vertices faces color opacity))"
    by (rule Mesh3d_accepted)
  have "html_loop color_ok (dict_keys mesh_data) mesh_data
          [entry_layer (''brain'', Entry vertices faces color opacity)] =
        (None, mesh_data, [entry_layer (''brain'', Entry vertices faces color opacity)] @
           map (\<lambda>n. entry_layer (n, the (map_of (dict_items mesh_data) n)))
               (filter (\<lambda>n. n \<noteq> ''brain'') (dict_keys mesh_data)))"
    by (rule html_loop_entries [OF assms(2)]) simp
  then have run: "html_error (create_3d_html color_ok mesh_data) = None"
    "html_file (create_3d_html color_ok mesh_data) =
       Some (entry_layer (''brain'', Entry vertices faces color opacity) # map entry_layer ?rest)"
    by (simp_all add: create_3d_html_def getitem_present [OF assms(3)] brain dict_keys_def
        layers_of_items [OF dist])
  have "list_all (\<lambda>kv. is_entry (snd kv)) ?rest"
    using assms(1) by (simp add: surface_entries_def list_all_iff)
  from layers_match [OF this] run show ?thesis by simp
qed

text \<open>
  Claim C4 on the example mapping, where \<open>'brain'\<close> is the last key: the whole figure.
\<close>

theorem create_3d_html_brain_first_witness:
  "surface_entries toy_mesh_data
   \<and> list_all (\<lambda>kv. mesh3d_accepts toy_color_ok (snd kv)) (dict_items toy_mesh_data)
   \<and> map_of (dict_items toy_mesh_data) ''brain''
       = Some (Entry [(1/2, 0, 0), (1/2, 1, 0), (1/2, 0, 1), (5/2, 0, 0), (5/2, 1, 0), (5/2, 0, 1)]
                     [(0, 1, 2), (3, 4, 5)] ''pink'' 0.2)
   \<and> dict_keys toy_mesh_data = [''Edema'', ''Enhancing'', ''brain'']
   \<and> html_error (create_3d_html toy_color_ok toy_mesh_data) = None
   \<and> html_file (create_3d_html toy_color_ok toy_mesh_data) =
       Some [\<lparr> mesh_x = [1/2, 1/2, 1/2, 5/2, 5/2, 5/2], mesh_y = [0, 1, 0, 0, 1, 0],
               mesh_z = [0, 0, 1, 0, 0, 1], mesh_i = [0, 3], mesh_j = [1, 4], mesh_k = [2, 5],
               mesh_color = ''pink'', mesh_opacity = 0.2, mesh_name = ''brain'' \<rparr>,
             \<lparr> mesh_x = [3/2, 3/2, 3/2], mesh_y = [0, 1, 0], mesh_z = [0, 0, 1],
               mesh_i = [0], mesh_j = [1], mesh_k = [2],
               mesh_color = ''yellow'', mesh_opacity = 0.3, mesh_name = ''Edema'' \<rparr>,
             \<lparr> mesh_x = [9/4, 9/4, 9/4], mesh_y = [0, 1, 0], mesh_z = [0, 0, 1],
               mesh_i = [0], mesh_j = [1], mesh_k = [2],
               mesh_color = ''lightblue'', mesh_opacity = 0.3, mesh_name = ''Enhancing'' \<rparr>]"
proof -
  have a: "surface_entries toy_mesh_data"
    by (simp add: surface_entries_def dict_ok_def dict_keys_def toy_mesh_data_def)
  have b: "list_all (\<lambda>kv. mesh3d_accepts toy_color_ok (snd kv)) (dict_items toy_mesh_data)"
    by (simp add: toy_mesh_data_def toy_color_ok_def)
  have c: "map_of (dict_items toy_mesh_data) ''brain''
       = Some (Entry [(1/2, 0, 0), (1/2, 1, 0), (1/2, 0, 1), (5/2, 0, 0), (5/2, 1, 0), (5/2, 0, 1)]
                     [(0, 1, 2), (3, 4, 5)] ''pink'' 0.2)"
    by (simp add: toy_mesh_data_def)
  from create_3d_html_brain_first [OF a b c]
  obtain layers where
    f: "html_file (create_3d_html toy_color_ok toy_mesh_data) =
          Some (\<lparr> mesh_x = [1/2, 1/2, 1/2, 5/2, 5/2, 5/2], mesh_y = [0, 1, 0, 0, 1, 0],
                  mesh_z = [0, 0, 1, 0, 0, 1], mesh_i = [0, 3], mesh_j = [1, 4],
                  mesh_k = [2, 5], mesh_color = ''pink'', mesh_opacity = 0.2,
                  mesh_name = ''brain'' \<rparr> # layers)"
    and e: "html_error (create_3d_html toy_color_ok toy_mesh_data) = None"
    and l: "list_all2
                (\<lambda>kv layer.
                   case snd kv of
                     Entry vs fs c al \<Rightarrow>
                       layer = \<lparr> mesh_x = map fst vs,
                             mesh_y = map (\<lambda>v. fst (snd v)) vs,
                             mesh_z = map (\<lambda>v. snd (snd v)) vs,
                             mesh_i = map fst fs,
                             mesh_j = map (\<lambda>f. fst (snd f)) fs,
                             mesh_k = map (\<lambda>f. snd (snd f)) fs,
                             mesh_color = c,
                             mesh_opacity = al,
                             mesh_name = fst kv \<rparr>
                   | EmptyList \<Rightarrow> False)
                (filter (\<lambda>kv. fst kv \<noteq> ''brain'') (dict_items toy_mesh_data)) layers"
    by auto
  from l have "layers =
      [\<lparr> mesh_x = [3/2, 3/2, 3/2], mesh_y = [0, 1, 0], mesh_z = [0, 0, 1],
         mesh_i = [0], mesh_j = [1], mesh_k = [2],
         mesh_color = ''yellow'', mesh_opacity = 0.3, mesh_name = ''Edema'' \<rparr>,
       \<lparr> mesh_x = [9/4, 9/4, 9/4], mesh_y = [0, 1, 0], mesh_z = [0, 0, 1],
         mesh_i = [0], mesh_j = [1], mesh_k = [2],
         mesh_color = ''lightblue'', mesh_opacity = 0.3, mesh_name = ''Enhancing'' \<rparr>]"
    by (simp add: toy_mesh_data_def list_all2_Cons1)
  with f e a b c show ?thesis
    by (simp add: toy_mesh_data_def dict_keys_def)
qed

text \<open>
  Claim C5. If some entry of a mapping of surface entries has a colour name that is not a
  key of \<open>COLOR_MAP\<close>, \<open>create_usdc_with_materials\<close> ends with a KeyError for a colour
  name outside the table; the stage is not saved and holds no material for that entry.
\<close>

theorem unknown_color_is_fatal:
  assumes "surface_entries md"
    and "(name, Entry vs fs color al) \<in> set (dict_items md)"
    and "COLOR_MAP color = None"
  shows "\<exists>c. usd_error (create_usdc_with_materials filename md) = Some (KeyError c)
           \<and> COLOR_MAP c = None
           \<and> usd_saved (create_usdc_with_materials filename md) = None
           \<and> ''/Materials/'' @ name @ ''Mat'' \<notin>
               mat_path ` set (materials (usd_built (create_usdc_with_materials filename md)))"
proof -
  let ?st = "\<lparr> stage_filename = filename, default_prim = ''/World'', meshes = [], materials = [] \<rparr>"
  have "list_all (\<lambda>kv. is_entry (snd kv)) (dict_items md)" "distinct (map fst (dict_items md))"
    using assms(1) by (simp_all add: surface_entries_def dict_ok_def dict_keys_def)
  from usdc_loop_unknown_color [OF this assms(2,3), of ?st]
  obtain c st' where "usdc_loop (dict_items md) ?st = (Some (KeyError c), st')"
    "COLOR_MAP c = None" "''/Materials/'' @ name @ ''Mat'' \<notin> mat_path ` set (materials st')"
    by auto
  then show ?thesis
    by (simp add: create_usdc_with_materials_def)
qed

text \<open>
  Claim C5 on a mapping whose second entry has the colour name \<open>'green'\<close>.
\<close>

theorem unknown_color_is_fatal_witness:
  "surface_entries green_mesh_data
   \<and> (''Edema'', Entry [(0, 0, 1), (1, 0, 1), (0, 1, 1)] [(0, 1, 2)] ''green'' 0.3)
        \<in> set (dict_items green_mesh_data)
   \<and> COLOR_MAP ''green'' = None
   \<and> usd_error (create_usdc_with_materials ''brain_with_tumor.usdc'' green_mesh_data)
        = Some (KeyError ''green'')
   \<and> usd_saved (create_usdc_with_materials ''brain_with_tumor.usdc'' green_mesh_data) = None
   \<and> map mat_path (materials (usd_built
        (create_usdc_with_materials ''brain_with_tumor.usdc'' green_mesh_data)))
        = [''/Materials/brainMat'']"
proof -
  have a: "surface_entries green_mesh_data"
    by (simp add: surface_entries_def dict_ok_def dict_keys_def green_mesh_data_def)
  have b: "(''Edema'', Entry [(0, 0, 1), (1, 0, 1), (0, 1, 1)] [(0, 1, 2)] ''green'' 0.3)
        \<in> set (dict_items green_mesh_data)"
    by (simp add: green_mesh_data_def)
  have c: "COLOR_MAP ''green'' = None" by (simp add: COLOR_MAP_def)
  have r: "usd_error (create_usdc_with_materials ''brain_with_tumor.usdc'' green_mesh_data)
        = Some (KeyError ''green'')"
    "map mat_path (materials (usd_built
        (create_usdc_with_materials ''brain_with_tumor.usdc'' green_mesh_data)))
        = [''/Materials/brainMat'']"
    by (simp_all add: create_usdc_with_materials_def green_mesh_data_def COLOR_MAP_def
        define_entry_def Let_def flatten_def)
  from unknown_color_is_fatal [OF a b c, of "''brain_with_tumor.usdc''"] a b c r show ?thesis
    by auto
qed

text \<open>
  Claim C6. Every mesh that \<open>create_usdc_with_materials\<close> defines belongs to an item
  of the mapping; every one of its face-vertex counts is 3, there are as many counts as the
  item has faces, and three times as many face-vertex indices. When the function raises
  nothing, the meshes are those of all items, in the order of the mapping.
\<close>

theorem face_vertex_counts_are_three:
  "(\<forall>m \<in> set (meshes (usd_built (create_usdc_with_materials filename md))).
      (\<forall>n \<in> set (faceVertexCounts m). n = 3)
      \<and> (\<exists>name vs fs c al. (name, Entry vs fs c al) \<in> set (dict_items md)
             \<and> mesh_path m = ''/World/'' @ name
             \<and> length (faceVertexCounts m) = length fs
             \<and> length (faceVertexIndices m) = 3 * length fs))
   \<and> (usd_error (create_usdc_with_materials filename md) = None \<longrightarrow>
        map mesh_path (meshes (usd_built (create_usdc_with_materials filename md))) =
        map (\<lambda>kv. ''/World/'' @ fst kv) (dict_items md))"
proof (rule conjI)
  show "\<forall>m \<in> set (meshes (usd_built (create_usdc_with_materials filename md))).
      (\<forall>n \<in> set (faceVertexCounts m). n = 3)
      \<and> (\<exists>name vs fs c al. (name, Entry vs fs c al) \<in> set (dict_items md)
             \<and> mesh_path m = ''/World/'' @ name
             \<and> length (faceVertexCounts m) = length fs
             \<and> length (faceVertexIndices m) = 3 * length fs)"
    using mesh_counts by blast
next
  obtain err st' where run: "usdc_loop (dict_items md)
       \<lparr> stage_filename = filename, default_prim = ''/World'', meshes = [], materials = [] \<rparr>
       = (err, st')"
    and err: "usd_error (create_usdc_with_materials filename md) = err"
    and built: "usd_built (create_usdc_with_materials filename md) = st'"
    by (rule usdc_run_loop)
  show "usd_error (create_usdc_with_materials filename md) = None \<longrightarrow>
        map mesh_path (meshes (usd_built (create_usdc_with_materials filename md))) =
        map (\<lambda>kv. ''/World/'' @ fst kv) (dict_items md)"
  proof
    assume ok: "usd_error (create_usdc_with_materials filename md) = None"
    from ok err run usdc_loop_complete [of "dict_items md" _ st'] built
    show "map mesh_path (meshes (usd_built (create_usdc_with_materials filename md))) =
        map (\<lambda>kv. ''/World/'' @ fst kv) (dict_items md)"
      by simp
  qed
qed

text \<open>
  Claim C6 on the example mapping.
\<close>

theorem face_vertex_counts_are_three_witness:
  "usd_error (create_usdc_with_materials ''brain_with_tumor.usdc'' toy_mesh_data) = None
   \<and> map mesh_path (meshes (usd_built
        (create_usdc_with_materials ''brain_with_tumor.usdc'' toy_mesh_data))) =
      [''/World/Edema'', ''/World/Enhancing'', ''/World/brain'']
   \<and> map faceVertexCounts (meshes (usd_built
        (create_usdc_with_materials ''brain_with_tumor.usdc'' toy_mesh_data))) =
      [[3], [3], [3, 3]]
   \<and> map faceVertexIndices (meshes (usd_built
        (create_usdc_with_materials ''brain_with_tumor.usdc'' toy_mesh_data))) =
      [[0, 1, 2], [0, 1, 2], [0, 1, 2, 3, 4, 5]]"
proof -
  have err: "usd_error (create_usdc_with_materials ''brain_with_tumor.usdc'' toy_mesh_data) = None"
    by (simp add: create_usdc_with_materials_def toy_mesh_data_def COLOR_MAP_def
      define_entry_def Let_def flatten_def)
  have run: "map faceVertexCounts (meshes (usd_built
        (create_usdc_with_materials ''brain_with_tumor.usdc'' toy_mesh_data))) =
      [[3], [3], [3, 3]]"
    "map faceVertexIndices (meshes (usd_built
        (create_usdc_with_materials ''brain_with_tumor.usdc'' toy_mesh_data))) =
      [[0, 1, 2], [0, 1, 2], [0, 1, 2, 3, 4, 5]]"
    by (simp_all add: create_usdc_with_materials_def toy_mesh_data_def COLOR_MAP_def
      define_entry_def Let_def flatten_def)
  from face_vertex_counts_are_three [of "''brain_with_tumor.usdc''" toy_mesh_data] err
  have "map mesh_path (meshes (usd_built
        (create_usdc_with_materials ''brain_with_tumor.usdc'' toy_mesh_data))) =
        map (\<lambda>kv. ''/World/'' @ fst kv) (dict_items toy_mesh_data)"
    by blast
  then show ?thesis using err run by (simp add: toy_mesh_data_def)
qed

text \<open>
  Claim C7. For every mapping that has the key \<open>'brain'\<close>, the mapping after
  \<open>create_3d_html\<close> and after \<open>create_usdc_with_materials\<close>, run on the original or
  one after the other as lines 143 and 146 do, is the mapping as it was.
\<close>

theorem exporters_leave_mapping_unchanged:
  assumes "''brain'' \<in> set (dict_keys md)"
  shows "html_mesh_data (create_3d_html color_ok md) = md
       \<and> usd_mesh_data (create_usdc_with_materials filename md) = md
       \<and> usd_mesh_data (create_usdc_with_materials filename
            (html_mesh_data (create_3d_html color_ok md))) = md"
  using html_keeps_mapping [OF assms, of color_ok]
  by (simp add: create_usdc_with_materials_def Let_def split: prod.splits option.splits)

text \<open>
  Claim C7 on the example mapping.
\<close>

theorem exporters_leave_mapping_unchanged_witness:
  "''brain'' \<in> set (dict_keys toy_mesh_data)
   \<and> html_mesh_data (create_3d_html toy_color_ok toy_mesh_data) = toy_mesh_data
   \<and> usd_mesh_data (create_usdc_with_materials ''brain_with_tumor.usdc'' toy_mesh_data)
       = toy_mesh_data"
proof -
  have a: "''brain'' \<in> set (dict_keys toy_mesh_data)"
    by (simp add: toy_mesh_data_def dict_keys_def)
  from exporters_leave_mapping_unchanged [OF a, of toy_color_ok "''brain_with_tumor.usdc''"] a
  show ?thesis by simp
qed

text \<open>
  Claim C8, as stated, fails: \<open>Gf.Vec3f\<close> holds single-precision numbers, and 0.9 and
  0.7 are none. The material of the pink \<open>'brain'\<close> entry gets the diffuse colour
  (15099494 / 16777216, 11744051 / 16777216, 11744051 / 16777216), that is
  (0.89999997615814208984375, 0.699999988079071044921875, 0.699999988079071044921875),
  not the table's (0.9, 0.7, 0.7).
\<close>

theorem diffuse_color_rounded_counterexample:
  "COLOR_MAP ''pink'' = Some (0.9, 0.7, 0.7)
   \<and> map mat_path (materials (usd_built
        (create_usdc_with_materials ''brain_with_tumor.usdc'' toy_mesh_data))) =
      [''/Materials/EdemaMat'', ''/Materials/EnhancingMat'', ''/Materials/brainMat'']
   \<and> diffuseColor (last (materials (usd_built
        (create_usdc_with_materials ''brain_with_tumor.usdc'' toy_mesh_data)))) =
      Vec3f (15099494 / 16777216) (11744051 / 16777216) (11744051 / 16777216)
   \<and> diffuseColor (last (materials (usd_built
        (create_usdc_with_materials ''brain_with_tumor.usdc'' toy_mesh_data)))) \<noteq>
      Vec3f 0.9 0.7 0.7"
  by (simp add: create_usdc_with_materials_def toy_mesh_data_def COLOR_MAP_def
      define_entry_def Let_def flatten_def Gf_Vec3f_def float32_values)

text \<open>
  Claim C8, amended. In a mapping with unique keys, the diffuse colour of the material
  defined for an entry is the triple \<open>COLOR_MAP\<close> holds for the entry's colour name, each
  component rounded to single precision by \<open>Gf.Vec3f\<close>; so the materials of two entries
  with the same colour name have the same diffuse colour. When the function raises
  nothing, there is one material for every item, in the order of the mapping.
\<close>

theorem diffuse_color_from_color_map:
  assumes "dict_ok md"
  shows "(\<forall>m1 \<in> set (materials (usd_built (create_usdc_with_materials filename md))).
          \<forall>m2 \<in> set (materials (usd_built (create_usdc_with_materials filename md))).
          \<forall>name1 vs1 fs1 al1 name2 vs2 fs2 al2 color.
            (name1, Entry vs1 fs1 color al1) \<in> set (dict_items md)
            \<and> (name2, Entry vs2 fs2 color al2) \<in> set (dict_items md)
            \<and> mat_path m1 = ''/Materials/'' @ name1 @ ''Mat''
            \<and> mat_path m2 = ''/Materials/'' @ name2 @ ''Mat''
            \<longrightarrow> (\<exists>r g b. COLOR_MAP color = Some (r, g, b)
                    \<and> diffuseColor m1 = Vec3f (float32 r) (float32 g) (float32 b)
                    \<and> diffuseColor m2 = Vec3f (float32 r) (float32 g) (float32 b)))
       \<and> (usd_error (create_usdc_with_materials filename md) = None \<longrightarrow>
            map mat_path (materials (usd_built (create_usdc_with_materials filename md))) =
            map (\<lambda>kv. ''/Materials/'' @ fst kv @ ''Mat'') (dict_items md))"
proof (intro conjI ballI allI impI)
  fix m1 m2 name1 vs1 fs1 al1 name2 vs2 fs2 al2 color
  assume m1: "m1 \<in> set (materials (usd_built (create_usdc_with_materials filename md)))"
    and m2: "m2 \<in> set (materials (usd_built (create_usdc_with_materials filename md)))"
    and h: "(name1, Entry vs1 fs1 color al1) \<in> set (dict_items md)
            \<and> (name2, Entry vs2 fs2 color al2) \<in> set (dict_items md)
            \<and> mat_path m1 = ''/Materials/'' @ name1 @ ''Mat''
            \<and> mat_path m2 = ''/Materials/'' @ name2 @ ''Mat''"
  from material_color [OF assms m1, of name1 vs1 fs1 color al1] h
  obtain r g b where c1: "COLOR_MAP color = Some (r, g, b)"
    "diffuseColor m1 = Vec3f (float32 r) (float32 g) (float32 b)"
    by blast
  from material_color [OF assms m2, of name2 vs2 fs2 color al2] h
  obtain r' g' b' where c2: "COLOR_MAP color = Some (r', g', b')"
    "diffuseColor m2 = Vec3f (float32 r') (float32 g') (float32 b')"
    by blast
  from c1 c2 show "\<exists>r g b. COLOR_MAP color = Some (r, g, b)
                    \<and> diffuseColor m1 = Vec3f (float32 r) (float32 g) (float32 b)
                    \<and> diffuseColor m2 = Vec3f (float32 r) (float32 g) (float32 b)"
    by simp
next
  assume ok: "usd_error (create_usdc_with_materials filename md) = None"
  obtain err st' where run: "usdc_loop (dict_items md)
       \<lparr> stage_filename = filename, default_prim = ''/World'', meshes = [], materials = [] \<rparr>
       = (err, st')"
    and err: "usd_error (create_usdc_with_materials filename md) = err"
    and built: "usd_built (create_usdc_with_materials filename md) = st'"
    by (rule usdc_run_loop)
  from ok err run usdc_loop_complete_materials [of "dict_items md" _ st'] built
  show "map mat_path (materials (usd_built (create_usdc_with_materials filename md))) =
            map (\<lambda>kv. ''/Materials/'' @ fst kv @ ''Mat'') (dict_items md)"
    by simp
qed

text \<open>
  Claim C8, amended, on a mapping in which \<open>'Edema'\<close> and \<open>'Enhancing'\<close> are both
  yellow.
\<close>

theorem diffuse_color_from_color_map_witness:
  "dict_ok yellow_mesh_data
   \<and> usd_error (create_usdc_with_materials ''brain_with_tumor.usdc'' yellow_mesh_data) = None
   \<and> map mat_path (materials (usd_built
        (create_usdc_with_materials ''brain_with_tumor.usdc'' yellow_mesh_data))) =
      [''/Materials/EdemaMat'', ''/Materials/EnhancingMat'', ''/Materials/brainMat'']
   \<and> map diffuseColor (materials (usd_built
        (create_usdc_with_materials ''brain_with_tumor.usdc'' yellow_mesh_data))) =
      [Vec3f (15099494 / 16777216) (15099494 / 16777216) (1 / 2),
       Vec3f (15099494 / 16777216) (15099494 / 16777216) (1 / 2),
       Vec3f (15099494 / 16777216) (11744051 / 16777216) (11744051 / 16777216)]"
proof -
  have ok: "dict_ok yellow_mesh_data"
    by (simp add: dict_ok_def dict_keys_def yellow_mesh_data_def)
  have err: "usd_error (create_usdc_with_materials ''brain_with_tumor.usdc'' yellow_mesh_data) = None"
    by (simp add: create_usdc_with_materials_def yellow_mesh_data_def COLOR_MAP_def
      define_entry_def Let_def flatten_def)
  from diffuse_color_from_color_map [OF ok, of "''brain_with_tumor.usdc''"] err
  have "map mat_path (materials (usd_built
        (create_usdc_with_materials ''brain_with_tumor.usdc'' yellow_mesh_data))) =
      map (\<lambda>kv. ''/Materials/'' @ fst kv @ ''Mat'') (dict_items yellow_mesh_data)"
    by blast
  then show ?thesis using ok err yellow_run
    by (simp add: yellow_mesh_data_def)
qed

text \<open>
  Claim C9. If every surface that \<open>marching_cubes\<close> returns has its face indices within
  its vertex list, then so has every entry of the mapping \<open>get_tumors\<close> returns and of
  the mapping built by lines 128 to 141, and every value of these mappings is such an
  entry. Every label whose mask is not empty has its name among the keys.
\<close>

theorem surface_entries_index_bounds:
  assumes "marching_cubes_contract L"
  shows "(\<forall>g p td. get_tumors L g p = Inr td \<longrightarrow> mesh_data_ok td)
       \<and> (\<forall>md. main_mesh_data L = Inr md \<longrightarrow> mesh_data_ok md)
       \<and> (\<forall>path seg_data p td lab.
            nib_load L path = Inr seg_data \<and> get_tumors L (Some path) p = Inr td
              \<and> lab \<in> set tumor_labels \<and> np_sum (eq_mask seg_data (fst lab)) \<noteq> 0
            \<longrightarrow> fst (snd lab) \<in> set (dict_keys td))"
proof (intro conjI allI impI)
  fix g p td assume "get_tumors L g p = Inr td"
  then show "mesh_data_ok td" by (rule get_tumors_ok [OF assms])
next
  fix md assume "main_mesh_data L = Inr md"
  then show "mesh_data_ok md" by (rule main_mesh_data_ok [OF assms])
next
  fix path seg_data p td lab
  assume a: "nib_load L path = Inr seg_data \<and> get_tumors L (Some path) p = Inr td
              \<and> lab \<in> set tumor_labels \<and> np_sum (eq_mask seg_data (fst lab)) \<noteq> 0"
  then have "set (dict_keys td) =
     {fst (snd lab) | lab. lab \<in> set tumor_labels \<and> np_sum (eq_mask seg_data (fst lab)) \<noteq> 0}"
    using get_tumors_keys by blast
  with a show "fst (snd lab) \<in> set (dict_keys td)" by blast
qed

text \<open>
  Claim C9 on the example files.
\<close>

theorem surface_entries_index_bounds_witness:
  "marching_cubes_contract toy_libs \<and> main_mesh_data toy_libs = Inr toy_mesh_data
     \<and> mesh_data_ok toy_mesh_data \<and> ''Edema'' \<in> set (dict_keys toy_tumor_data)"
proof -
  have e: "(1, ''Edema'', ''yellow'', 3/10) \<in> set tumor_labels"
    by (simp add: tumor_labels_def)
  have n: "np_sum (eq_mask toy_seg 1) \<noteq> 0"
    by (simp add: np_sum_def eq_mask_def toy_seg_def)
  have l: "nib_load toy_libs main_seg_path = Inr toy_seg"
    by (simp add: toy_libs_def toy_nib_load_def)
  note c = surface_entries_index_bounds [OF toy_contract]
  from c toy_main have ok: "mesh_data_ok toy_mesh_data" by blast
  from c have "nib_load toy_libs main_seg_path = Inr toy_seg
      \<and> get_tumors toy_libs (Some main_seg_path) main_seg_path = Inr toy_tumor_data
      \<and> (1, ''Edema'', ''yellow'', 3/10) \<in> set tumor_labels
      \<and> np_sum (eq_mask toy_seg (fst (1::int, ''Edema'', ''yellow'', 3/10::real))) \<noteq> 0
    \<longrightarrow> fst (snd (1::int, ''Edema'', ''yellow'', 3/10::real)) \<in> set (dict_keys toy_tumor_data)"
    by blast
  with e n l toy_get_tumors have "''Edema'' \<in> set (dict_keys toy_tumor_data)" by simp
  with ok show ?thesis using toy_contract toy_main by simp
qed

text \<open>
  Claim C10. \<open>get_tumors\<close> returns the same result for any two values of its
  parameter \<open>tumor_path\<close>: what it loads is decided by the global \<open>seg_path\<close>.
\<close>

theorem get_tumors_ignores_tumor_path:
  "get_tumors L seg_path tumor_path = get_tumors L seg_path tumor_path'"
  by (simp add: get_tumors_def)

text \<open>
  Claim C10 on the example files: another argument gives the mapping of the script's own
  call, and without the global the call raises NameError whatever the argument is.
\<close>

theorem get_tumors_ignores_tumor_path_witness:
  "get_tumors toy_libs (Some main_seg_path) ''another.nii.gz'' = Inr toy_tumor_data
   \<and> get_tumors toy_libs None ''another.nii.gz'' = Inl (NameError ''seg_path'')"
proof -
  have "get_tumors toy_libs (Some main_seg_path) main_seg_path = Inr toy_tumor_data"
    by (rule toy_get_tumors)
  moreover have "get_tumors toy_libs None main_seg_path = Inl (NameError ''seg_path'')"
    by (simp add: get_tumors_def)
  ultimately show ?thesis
    using get_tumors_ignores_tumor_path [of toy_libs "Some main_seg_path" "''another.nii.gz''" main_seg_path]
      get_tumors_ignores_tumor_path [of toy_libs None "''another.nii.gz''" main_seg_path]
    by simp
qed

end
